theory Spec2Isabelle
  imports Complex_Main "HOL-Library.Word"
begin

section \<open>vks::ModelGroup (ModelGroup.hpp): data model\<close>

text \<open>
  \<^verbatim>\<open>uint32_t\<close> is a 32-bit word: \<open>+\<close> wraps, \<open>unat\<close> reads it, \<open>of_nat\<close> truncates a
  \<^verbatim>\<open>size_t\<close>.  A \<^verbatim>\<open>float\<close> is modelled by the real number it denotes (finite values only):
  the program copies floats, negates them, compares them and takes \<^verbatim>\<open>fmax\<close>/\<^verbatim>\<open>fmin\<close>, all of
  which are exact on finite floats; the one division (\<^verbatim>\<open>10.0f / Ns\<close>) and the one subtraction
  (\<^verbatim>\<open>dim.max - dim.min\<close>) are rounded in the program and exact in the model.
\<close>

type_synonym u32 = "32 word"
type_synonym float = real

text \<open>
  Reading or writing a \<^verbatim>\<open>std::vector\<close> or a mapped buffer past its end, dereferencing a null
  array and overflowing an \<^verbatim>\<open>int\<close> counter are undefined behaviour in C++; the model makes each
  of them an error value.  \<^verbatim>\<open>VK_CHECK_RESULT\<close> aborts on a failed device call.
\<close>

datatype error =
    OutOfBounds
  | NullPointer
  | SignedOverflow
  | ResourceAllocationFailed
  | TextureDecodeFailed

datatype vec3 = Vec3 (vec_x: float) (vec_y: float) (vec_z: float)
datatype vec4 = Vec4 (vec4_x: float) (vec4_y: float) (vec4_z: float) (vec4_w: float)

text \<open>\<^verbatim>\<open>glm::mat4\<close>: sixteen floats, column by column.\<close>
type_synonym mat4 = "float list"

text \<open>\<^verbatim>\<open>struct Material\<close>; the field \<^verbatim>\<open>d\<close> is named \<open>d_opacity\<close>.\<close>
record Material =
  Ka :: vec4
  Kd :: vec4
  Ks :: vec4
  Ke :: vec4
  Ma :: u32
  Md :: u32
  Me :: u32
  Ns :: float
  Ni :: float
  d_opacity :: float
  Nm :: float
  Nr :: float

record ModelPart =
  vertexBase :: u32
  vertexCount :: u32
  indexBase :: u32
  indexCount :: u32
  materialIdx :: u32

record DrawCommand =
  modelIndex :: u32
  partIndex :: u32

record InstanceData =
  materialIndex :: u32
  modelMat :: mat4

text \<open>\<^verbatim>\<open>Model::Dimension\<close>; its fields \<^verbatim>\<open>min\<close>, \<^verbatim>\<open>max\<close>, \<^verbatim>\<open>size\<close> carry the suffix \<open>_dim\<close>.\<close>
record Dimension =
  min_dim :: vec3
  max_dim :: vec3
  size_dim :: vec3

record Model =
  parts :: "ModelPart list"
  dim :: Dimension

section \<open>buildCommandBuffer\<close>

text \<open>
  The arguments of one \<^verbatim>\<open>vkCmdDrawIndexed\<close> call.  \<open>vertexOffset\<close> is an \<^verbatim>\<open>int32_t\<close> in
  Vulkan; the program passes the part's \<^verbatim>\<open>uint32_t vertexBase\<close>, the same 32 bits.
\<close>
record DrawIndexed =
  draw_indexCount :: u32
  instanceCount :: u32
  firstIndex :: u32
  vertexOffset :: u32
  firstInstance :: u32

text \<open>\<^verbatim>\<open>models[modIdx].parts[partIdx]\<close>, an unchecked \<^verbatim>\<open>operator[]\<close> twice.\<close>
definition get_part :: "Model list \<Rightarrow> u32 \<Rightarrow> u32 \<Rightarrow> error + ModelPart" where
  "get_part ms modIdx partIdx =
     (if unat modIdx < length ms then
        (if unat partIdx < length (parts (ms ! unat modIdx))
         then Inr (parts (ms ! unat modIdx) ! unat partIdx)
         else Inl OutOfBounds)
      else Inl OutOfBounds)"

text \<open>
  \<^verbatim>\<open>vkCmdDrawIndexed(cmdBuff, models[modIdx].parts[partIdx].indexCount, instCount,
  models[modIdx].parts[partIdx].indexBase, models[modIdx].parts[partIdx].vertexBase, instOffset)\<close>:
  the command buffer is the list of the draws recorded so far.
\<close>
definition vkCmdDrawIndexed ::
  "Model list \<Rightarrow> DrawIndexed list \<Rightarrow> u32 \<Rightarrow> u32 \<Rightarrow> u32 \<Rightarrow> u32 \<Rightarrow> error + DrawIndexed list" where
  "vkCmdDrawIndexed ms cmdBuff modIdx partIdx instCount instOffset =
     (case get_part ms modIdx partIdx of
        Inl e \<Rightarrow> Inl e
      | Inr p \<Rightarrow> Inr (cmdBuff @
          [\<lparr>draw_indexCount = indexCount p, instanceCount = instCount,
            firstIndex = indexBase p, vertexOffset = vertexBase p,
            firstInstance = instOffset\<rparr>]))"

text \<open>The four locals of the loop: \<^verbatim>\<open>modIdx\<close>, \<^verbatim>\<open>partIdx\<close>, \<^verbatim>\<open>instCount\<close>, \<^verbatim>\<open>instOffset\<close>.\<close>
record batch =
  modIdx :: u32
  partIdx :: u32
  instCount :: u32
  instOffset :: u32

text \<open>
  \<^verbatim>\<open>for (int i = 0; i < instances.size(); i++)\<close>, on the instances from index \<open>i\<close> on.
  \<^verbatim>\<open>i++\<close> at \<^verbatim>\<open>INT_MAX\<close> overflows.
\<close>
fun draw_loop ::
  "Model list \<Rightarrow> DrawCommand list \<Rightarrow> nat \<Rightarrow> batch \<Rightarrow> DrawIndexed list
     \<Rightarrow> error + (batch \<times> DrawIndexed list)" where
  "draw_loop ms [] i b cmdBuff = Inr (b, cmdBuff)"
| "draw_loop ms (inst # rest) i b cmdBuff =
     (if modIdx b \<noteq> modelIndex inst \<or> partIdx b \<noteq> partIndex inst then
        (case vkCmdDrawIndexed ms cmdBuff (modIdx b) (partIdx b) (instCount b) (instOffset b) of
           Inl e \<Rightarrow> Inl e
         | Inr cmdBuff' \<Rightarrow>
            (if 2147483647 \<le> i then Inl SignedOverflow
             else draw_loop ms rest (Suc i)
                    \<lparr>modIdx = modelIndex inst, partIdx = partIndex inst,
                     instCount = 0 + 1, instOffset = of_nat i\<rparr> cmdBuff'))
      else
        (if 2147483647 \<le> i then Inl SignedOverflow
         else draw_loop ms rest (Suc i) (b\<lparr>instCount := instCount b + 1\<rparr>) cmdBuff))"

text \<open>
  \<^verbatim>\<open>void buildCommandBuffer(VkCommandBuffer cmdBuff)\<close>.  \<^verbatim>\<open>instances[0]\<close> is read before the
  loop, whatever the size of \<^verbatim>\<open>instances\<close>.
\<close>
definition buildCommandBuffer ::
  "Model list \<Rightarrow> DrawCommand list \<Rightarrow> DrawIndexed list \<Rightarrow> error + DrawIndexed list" where
  "buildCommandBuffer ms insts cmdBuff =
     (case insts of
        [] \<Rightarrow> Inl OutOfBounds
      | inst0 # _ \<Rightarrow>
         (case draw_loop ms insts 0
                 \<lparr>modIdx = modelIndex inst0, partIdx = partIndex inst0,
                  instCount = 0, instOffset = 0\<rparr> cmdBuff of
            Inl e \<Rightarrow> Inl e
          | Inr (b, cmdBuff') \<Rightarrow>
             (if instCount b = 0 then Inr cmdBuff'
              else vkCmdDrawIndexed ms cmdBuff' (modIdx b) (partIdx b) (instCount b) (instOffset b))))"

subsection \<open>Runs, as the specification words them\<close>

text \<open>
  A run is a maximal contiguous subsequence of the instance list with one (model, part) key.
  \<open>runs off ks\<close> lists the runs of \<open>ks\<close> in order, each as (key, starting offset, length), the
  first starting at offset \<open>off\<close>.
\<close>
function runs :: "nat \<Rightarrow> 'a list \<Rightarrow> ('a \<times> nat \<times> nat) list" where
  "runs off [] = []"
| "runs off (k # ks) =
     (k, off, Suc (length (takeWhile (\<lambda>j. j = k) ks)))
       # runs (off + Suc (length (takeWhile (\<lambda>j. j = k) ks))) (dropWhile (\<lambda>j. j = k) ks)"
  by pat_completeness auto
termination
  by (relation "measure (\<lambda>(off, ks). length ks)")
     (auto simp: length_dropWhile_le less_Suc_eq_le)

text \<open>An instance refers to a loaded model and to one of its parts.\<close>
definition valid_instance :: "Model list \<Rightarrow> DrawCommand \<Rightarrow> bool" where
  "valid_instance ms inst \<longleftrightarrow>
     unat (modelIndex inst) < length ms \<and>
     unat (partIndex inst) < length (parts (ms ! unat (modelIndex inst)))"

text \<open>The draw that a run stands for: the geometry of its part, its length and its offset.\<close>
definition run_draw :: "Model list \<Rightarrow> DrawCommand \<times> nat \<times> nat \<Rightarrow> DrawIndexed" where
  "run_draw ms r =
     (case r of (k, off, n) \<Rightarrow>
        let p = parts (ms ! unat (modelIndex k)) ! unat (partIndex k) in
        \<lparr>draw_indexCount = indexCount p, instanceCount = of_nat n,
         firstIndex = indexBase p, vertexOffset = vertexBase p,
         firstInstance = of_nat off\<rparr>)"

section \<open>The scene delivered by the importer (Assimp)\<close>

type_synonym aiVector3D = vec3

datatype aiColor3D = aiColor3D (col_r: float) (col_g: float) (col_b: float)

text \<open>
  An \<^verbatim>\<open>aiMaterial\<close> is a property list; the program reads the four colours, the shininess
  and the path of the first diffuse texture.  An \<^verbatim>\<open>aiString\<close> is modelled by the string it
  holds (\<^verbatim>\<open>length\<close> is its length and \<^verbatim>\<open>data\<close> has no embedded NUL).
\<close>
record aiMaterial =
  COLOR_AMBIENT :: "aiColor3D option"
  COLOR_DIFFUSE :: "aiColor3D option"
  COLOR_SPECULAR :: "aiColor3D option"
  COLOR_EMISSIVE :: "aiColor3D option"
  SHININESS :: "float option"
  TEXTURE_DIFFUSE :: "string option"

text \<open>
  \<^verbatim>\<open>aiMaterial::Get(key, out)\<close> for a float writes \<^verbatim>\<open>out\<close> only when the property is present.
  The overload for an \<^verbatim>\<open>aiColor3D\<close> reads the colour into a zero-initialised \<^verbatim>\<open>aiColor4D\<close> and
  assigns \<^verbatim>\<open>out\<close> from it in either case (Assimp, material.inl): an absent colour comes out
  black, whatever \<^verbatim>\<open>out\<close> held.
\<close>
definition Get :: "'a option \<Rightarrow> 'a \<Rightarrow> 'a" where
  "Get prop out = (case prop of None \<Rightarrow> out | Some v \<Rightarrow> v)"

definition GetColor :: "aiColor3D option \<Rightarrow> aiColor3D \<Rightarrow> aiColor3D" where
  "GetColor prop out = (case prop of None \<Rightarrow> aiColor3D 0 0 0 | Some v \<Rightarrow> v)"

text \<open>\<^verbatim>\<open>aiString p; mat->GetTexture(aiTextureType_DIFFUSE, 0, &p)\<close>: \<^verbatim>\<open>p\<close> starts empty.\<close>
definition GetTexture :: "aiMaterial \<Rightarrow> string" where
  "GetTexture mat = Get (TEXTURE_DIFFUSE mat) []"

text \<open>\<^verbatim>\<open>aiFace\<close>: \<^verbatim>\<open>mNumIndices\<close> is the length of \<^verbatim>\<open>mIndices\<close>.\<close>
record aiFace =
  mIndices :: "u32 list"

text \<open>
  \<^verbatim>\<open>aiMesh\<close>: \<^verbatim>\<open>mNumVertices\<close> is the length of \<^verbatim>\<open>mVertices\<close>, \<^verbatim>\<open>mNumFaces\<close> that of
  \<^verbatim>\<open>mFaces\<close>; the other per-vertex arrays may be null (\<open>None\<close>); \<open>mTextureCoords0\<close> is
  \<^verbatim>\<open>mTextureCoords[0]\<close>.
\<close>
record aiMesh =
  mVertices :: "aiVector3D list"
  mNormals :: "aiVector3D list option"
  mTextureCoords0 :: "aiVector3D list option"
  mTangents :: "aiVector3D list option"
  mBitangents :: "aiVector3D list option"
  mFaces :: "aiFace list"
  mMaterialIndex :: u32

record aiScene =
  mMaterials :: "aiMaterial list"
  mMeshes :: "aiMesh list"

text \<open>
  \<^verbatim>\<open>Importer.ReadFile(filename, flags)\<close>: a scene, or null with the text of
  \<^verbatim>\<open>Importer.GetErrorString()\<close> (\<open>Inl\<close>).
\<close>
type_synonym Importer = "string \<Rightarrow> int \<Rightarrow> string + aiScene"

section \<open>The state of a ModelGroup\<close>

text \<open>\<^verbatim>\<open>vks::Component\<close> (VulkanModel.hpp).\<close>
datatype Component =
    VERTEX_COMPONENT_POSITION
  | VERTEX_COMPONENT_NORMAL
  | VERTEX_COMPONENT_COLOR
  | VERTEX_COMPONENT_UV
  | VERTEX_COMPONENT_TANGENT
  | VERTEX_COMPONENT_BITANGENT
  | VERTEX_COMPONENT_DUMMY_FLOAT
  | VERTEX_COMPONENT_DUMMY_VEC4

text \<open>
  The fields of the class.  The counters \<^verbatim>\<open>indexCount\<close> and \<^verbatim>\<open>vertexCount\<close> carry the suffix
  \<open>_grp\<close> (a \<^verbatim>\<open>ModelPart\<close> has fields of the same names).  A device buffer is the list of what
  it holds, \<open>None\<close> before it is created: \<open>vertices\<close> and \<open>indices\<close> are the device-local
  copies, \<open>instanceBuff\<close> the mapped instance data and \<open>materialsBuff\<close> the mapped material
  table (a slot of either is \<open>None\<close> until it is written), \<open>texArray\<close> the paths of the layers.
\<close>
record ModelGroup =
  instances :: "DrawCommand list"
  instanceDatas :: "InstanceData list"
  layout :: "Component list"
  indexCount_grp :: u32
  vertexCount_grp :: u32
  vertexBuffer :: "float list"
  indexBuffer :: "u32 list"
  aiMaterials :: "aiMaterial list"
  texSize :: u32
  models :: "Model list"
  materials :: "Material list"
  vertices :: "float list option"
  indices :: "u32 list option"
  instanceBuff :: "InstanceData option list option"
  materialsBuff :: "Material option list option"
  texArray :: "string list option"

text \<open>
  \<^verbatim>\<open>glm::vec3()\<close> and \<^verbatim>\<open>glm::vec4()\<close> are zero vectors and \<^verbatim>\<open>glm::mat4()\<close> is the identity
  (GLM initialises in its default constructors).
\<close>
definition vec3_default :: vec3 where
  "vec3_default = Vec3 0 0 0"

definition vec4_default :: vec4 where
  "vec4_default = Vec4 0 0 0 0"

definition FLT_MAX :: float where
  "FLT_MAX = 340282346638528859811704183484516925440"

text \<open>\<^verbatim>\<open>ModelGroup(dev, queue)\<close> with the default member initialisers.\<close>
definition ModelGroup_new :: ModelGroup where
  "ModelGroup_new =
     \<lparr>instances = [], instanceDatas = [],
      layout = [VERTEX_COMPONENT_POSITION, VERTEX_COMPONENT_NORMAL, VERTEX_COMPONENT_UV],
      indexCount_grp = 0, vertexCount_grp = 0, vertexBuffer = [], indexBuffer = [],
      aiMaterials = [], texSize = 1024, models = [], materials = [],
      vertices = None, indices = None, instanceBuff = None, materialsBuff = None,
      texArray = None\<rparr>"

section \<open>addModel\<close>

text \<open>An unchecked \<^verbatim>\<open>array[j]\<close>.\<close>
definition at_index :: "'a list \<Rightarrow> nat \<Rightarrow> error + 'a" where
  "at_index xs j = (if j < length xs then Inr (xs ! j) else Inl OutOfBounds)"

text \<open>\<^verbatim>\<open>array[j]\<close> where \<^verbatim>\<open>array\<close> may be null.\<close>
definition at_index_opt :: "'a list option \<Rightarrow> nat \<Rightarrow> error + 'a" where
  "at_index_opt a j = (case a of None \<Rightarrow> Inl NullPointer | Some xs \<Rightarrow> at_index xs j)"

text \<open>
  \<^verbatim>\<open>HasTangentsAndBitangents()\<close>; inside the vertex loop \<^verbatim>\<open>mNumVertices > 0\<close> holds.
\<close>
definition HasTangentsAndBitangents :: "aiMesh \<Rightarrow> bool" where
  "HasTangentsAndBitangents mesh \<longleftrightarrow> mTangents mesh \<noteq> None \<and> mBitangents mesh \<noteq> None"

text \<open>
  One \<^verbatim>\<open>case\<close> of the \<^verbatim>\<open>switch (component)\<close> for vertex \<open>j\<close>: the floats pushed onto
  \<^verbatim>\<open>vertexBuffer\<close>.  \<^verbatim>\<open>pPos\<close> is \<^verbatim>\<open>mVertices[j]\<close>; the other pointers are dereferenced only in
  their own case, and stand for \<^verbatim>\<open>Zero3D\<close> when the mesh lacks the array.
\<close>
fun emit_component :: "aiMesh \<Rightarrow> nat \<Rightarrow> aiVector3D \<Rightarrow> aiColor3D \<Rightarrow> Component \<Rightarrow> error + float list" where
  "emit_component mesh j pPos pColor VERTEX_COMPONENT_POSITION =
     Inr [vec_x pPos, - vec_y pPos, vec_z pPos]"
| "emit_component mesh j pPos pColor VERTEX_COMPONENT_NORMAL =
     (case at_index_opt (mNormals mesh) j of
        Inl e \<Rightarrow> Inl e
      | Inr pNormal \<Rightarrow> Inr [vec_x pNormal, - vec_y pNormal, vec_z pNormal])"
| "emit_component mesh j pPos pColor VERTEX_COMPONENT_UV =
     (case mTextureCoords0 mesh of
        None \<Rightarrow> Inr [0, 0]
      | Some coords \<Rightarrow>
         (case at_index coords j of
            Inl e \<Rightarrow> Inl e
          | Inr pTexCoord \<Rightarrow> Inr [vec_x pTexCoord, vec_y pTexCoord]))"
| "emit_component mesh j pPos pColor VERTEX_COMPONENT_COLOR =
     Inr [col_r pColor, col_g pColor, col_b pColor]"
| "emit_component mesh j pPos pColor VERTEX_COMPONENT_TANGENT =
     (if HasTangentsAndBitangents mesh then
        (case at_index_opt (mTangents mesh) j of
           Inl e \<Rightarrow> Inl e
         | Inr pTangent \<Rightarrow> Inr [vec_x pTangent, vec_y pTangent, vec_z pTangent])
      else Inr [0, 0, 0])"
| "emit_component mesh j pPos pColor VERTEX_COMPONENT_BITANGENT =
     (if HasTangentsAndBitangents mesh then
        (case at_index_opt (mBitangents mesh) j of
           Inl e \<Rightarrow> Inl e
         | Inr pBiTangent \<Rightarrow> Inr [vec_x pBiTangent, vec_y pBiTangent, vec_z pBiTangent])
      else Inr [0, 0, 0])"
| "emit_component mesh j pPos pColor VERTEX_COMPONENT_DUMMY_FLOAT = Inr [0]"
| "emit_component mesh j pPos pColor VERTEX_COMPONENT_DUMMY_VEC4 = Inr [0, 0, 0, 0]"

text \<open>\<^verbatim>\<open>for (auto& component : layout.components)\<close> for vertex \<open>j\<close>.\<close>
fun emit_vertex ::
  "aiMesh \<Rightarrow> nat \<Rightarrow> aiVector3D \<Rightarrow> aiColor3D \<Rightarrow> Component list \<Rightarrow> float list \<Rightarrow> error + float list" where
  "emit_vertex mesh j pPos pColor [] vb = Inr vb"
| "emit_vertex mesh j pPos pColor (component # comps) vb =
     (case emit_component mesh j pPos pColor component of
        Inl e \<Rightarrow> Inl e
      | Inr fs \<Rightarrow> emit_vertex mesh j pPos pColor comps (vb @ fs))"

text \<open>The six \<^verbatim>\<open>fmax\<close>/\<^verbatim>\<open>fmin\<close> assignments to \<^verbatim>\<open>model.dim\<close>, on the position as imported.\<close>
definition fold_dim :: "aiVector3D \<Rightarrow> Dimension \<Rightarrow> Dimension" where
  "fold_dim pPos dm =
     dm\<lparr>max_dim := Vec3 (max (vec_x pPos) (vec_x (max_dim dm)))
                        (max (vec_y pPos) (vec_y (max_dim dm)))
                        (max (vec_z pPos) (vec_z (max_dim dm))),
        min_dim := Vec3 (min (vec_x pPos) (vec_x (min_dim dm)))
                        (min (vec_y pPos) (vec_y (min_dim dm)))
                        (min (vec_z pPos) (vec_z (min_dim dm)))\<rparr>"

text \<open>
  \<^verbatim>\<open>for (unsigned int j = 0; j < paiMesh->mNumVertices; j++)\<close>, on the positions from index
  \<open>j\<close> on; the state is \<^verbatim>\<open>vertexBuffer\<close> and \<^verbatim>\<open>model.dim\<close>.
\<close>
fun vertex_loop ::
  "Component list \<Rightarrow> aiMesh \<Rightarrow> aiColor3D \<Rightarrow> aiVector3D list \<Rightarrow> nat \<Rightarrow> float list \<times> Dimension
     \<Rightarrow> error + (float list \<times> Dimension)" where
  "vertex_loop lay mesh pColor [] j (vb, dm) = Inr (vb, dm)"
| "vertex_loop lay mesh pColor (pPos # rest) j (vb, dm) =
     (case emit_vertex mesh j pPos pColor lay vb of
        Inl e \<Rightarrow> Inl e
      | Inr vb' \<Rightarrow> vertex_loop lay mesh pColor rest (Suc j) (vb', fold_dim pPos dm))"

text \<open>
  \<^verbatim>\<open>for (unsigned int j = 0; j < paiMesh->mNumFaces; j++)\<close>; the state is \<^verbatim>\<open>indexBuffer\<close>,
  \<^verbatim>\<open>model.parts[i].indexCount\<close> and the group's \<^verbatim>\<open>indexCount\<close>.
\<close>
fun face_loop :: "aiFace list \<Rightarrow> u32 list \<times> u32 \<times> u32 \<Rightarrow> u32 list \<times> u32 \<times> u32" where
  "face_loop [] st = st"
| "face_loop (Face # rest) (ib, partCount, groupCount) =
     (if length (mIndices Face) \<noteq> 3 then face_loop rest (ib, partCount, groupCount)
      else face_loop rest
             (ib @ [mIndices Face ! 0, mIndices Face ! 1, mIndices Face ! 2],
              partCount + 3, groupCount + 3))"

text \<open>\<^verbatim>\<open>model.parts[i] = {}\<close>.\<close>
definition ModelPart_zero :: ModelPart where
  "ModelPart_zero =
     \<lparr>vertexBase = 0, vertexCount = 0, indexBase = 0, indexCount = 0, materialIdx = 0\<rparr>"

text \<open>\<^verbatim>\<open>dim.max - dim.min\<close>.\<close>
definition vec3_minus :: "vec3 \<Rightarrow> vec3 \<Rightarrow> vec3" where
  "vec3_minus a b = Vec3 (vec_x a - vec_x b) (vec_y a - vec_y b) (vec_z a - vec_z b)"

text \<open>
  The body of \<^verbatim>\<open>for (unsigned int i = 0; i < pScene->mNumMeshes; i++)\<close> for mesh \<open>i\<close>, on the
  group and the local \<^verbatim>\<open>model\<close>.  \<^verbatim>\<open>pScene->mMaterials[paiMesh->mMaterialIndex]\<close> is unchecked.
\<close>
definition load_mesh ::
  "aiScene \<Rightarrow> u32 \<Rightarrow> aiMesh \<Rightarrow> nat \<Rightarrow> ModelGroup \<times> Model \<Rightarrow> error + (ModelGroup \<times> Model)" where
  "load_mesh pScene materialOffset paiMesh i st =
     (case st of (g, model) \<Rightarrow>
        let part0 = ModelPart_zero
              \<lparr>vertexBase := vertexCount_grp g, indexBase := indexCount_grp g,
               materialIdx := mMaterialIndex paiMesh + materialOffset\<rparr>;
            g1 = g\<lparr>vertexCount_grp := vertexCount_grp g + of_nat (length (mVertices paiMesh))\<rparr>
        in
        (case at_index (mMaterials pScene) (unat (mMaterialIndex paiMesh)) of
           Inl e \<Rightarrow> Inl e
         | Inr aim \<Rightarrow>
            let pColor = GetColor (COLOR_DIFFUSE aim) (aiColor3D 0 0 0) in
            (case vertex_loop (layout g1) paiMesh pColor (mVertices paiMesh) 0
                    (vertexBuffer g1, dim model) of
               Inl e \<Rightarrow> Inl e
             | Inr (vb, dm) \<Rightarrow>
                let dm1 = dm\<lparr>size_dim := vec3_minus (max_dim dm) (min_dim dm)\<rparr>;
                    part1 = part0\<lparr>vertexCount := of_nat (length (mVertices paiMesh))\<rparr>
                in
                (case face_loop (mFaces paiMesh) (indexBuffer g1, indexCount part1, indexCount_grp g1) of
                   (ib, partCount, groupCount) \<Rightarrow>
                     Inr (g1\<lparr>vertexBuffer := vb, indexBuffer := ib, indexCount_grp := groupCount\<rparr>,
                          \<lparr>parts = (parts model)[i := part1\<lparr>indexCount := partCount\<rparr>],
                           dim = dm1\<rparr>)))))"

text \<open>The loop over the meshes, from mesh \<open>i\<close> on.\<close>
fun mesh_loop ::
  "aiScene \<Rightarrow> u32 \<Rightarrow> aiMesh list \<Rightarrow> nat \<Rightarrow> ModelGroup \<times> Model \<Rightarrow> error + (ModelGroup \<times> Model)" where
  "mesh_loop pScene materialOffset [] i st = Inr st"
| "mesh_loop pScene materialOffset (paiMesh # rest) i st =
     (case load_mesh pScene materialOffset paiMesh i st of
        Inl e \<Rightarrow> Inl e
      | Inr st' \<Rightarrow> mesh_loop pScene materialOffset rest (Suc i) st')"

text \<open>\<^verbatim>\<open>Model model; model.parts.resize(pScene->mNumMeshes)\<close>.\<close>
definition Model_new :: "nat \<Rightarrow> Model" where
  "Model_new n =
     \<lparr>parts = replicate n ModelPart_zero,
      dim = \<lparr>min_dim = Vec3 FLT_MAX FLT_MAX FLT_MAX,
             max_dim = Vec3 (- FLT_MAX) (- FLT_MAX) (- FLT_MAX),
             size_dim = vec3_default\<rparr>\<rparr>"

text \<open>The line that \<^verbatim>\<open>printf("Error parsing '%s': '%s'\n", ...)\<close> writes.\<close>
definition error_line :: "string \<Rightarrow> string \<Rightarrow> string" where
  "error_line filename diagnostic =
     ''Error parsing '' @ [CHR 0x27] @ filename @ [CHR 0x27] @ '': '' @ [CHR 0x27] @ diagnostic
       @ [CHR 0x27, CHR 0x0A]"

text \<open>
  \<^verbatim>\<open>int addModel(const std::string& filename, const int flags)\<close>, the branch that is not
  for Android.  The result is the returned \<^verbatim>\<open>int\<close>, the lines written to standard output
  and the group.  \<^verbatim>\<open>for (int i = 0; i < pScene->mNumMaterials; i++)\<close> overflows \<^verbatim>\<open>i\<close> beyond
  \<^verbatim>\<open>INT_MAX\<close> materials; the copied materials are appended to \<^verbatim>\<open>aiMaterials\<close>.
\<close>
definition addModel ::
  "Importer \<Rightarrow> ModelGroup \<Rightarrow> string \<Rightarrow> int \<Rightarrow> error + (int \<times> string list \<times> ModelGroup)" where
  "addModel ReadFile g filename flags =
     (case ReadFile filename flags of
        Inr pScene \<Rightarrow>
          let modelIndex = (of_nat (length (models g)) :: u32);
              materialOffset = (of_nat (length (aiMaterials g)) :: u32)
          in
          if 2147483647 < length (mMaterials pScene) then Inl SignedOverflow
          else
            (case mesh_loop pScene materialOffset (mMeshes pScene) 0
                    (g\<lparr>aiMaterials := aiMaterials g @ mMaterials pScene\<rparr>,
                     Model_new (length (mMeshes pScene))) of
               Inl e \<Rightarrow> Inl e
             | Inr (g', model) \<Rightarrow>
                 Inr (sint modelIndex, [], g'\<lparr>models := models g' @ [model]\<rparr>))
      | Inl diagnostic \<Rightarrow> Inr (- 1, [error_line filename diagnostic], g))"

section \<open>addInstance\<close>

text \<open>
  The three overloads; each returns the index of the first instance it appends (the
  parameters \<^verbatim>\<open>partIdx\<close> and \<^verbatim>\<open>modelMat\<close> are written \<open>partIdx'\<close> and \<open>modelMat'\<close>).  The first
  counts with an \<^verbatim>\<open>int\<close>; the third reads \<^verbatim>\<open>models[modelIdx].parts[partIdx].materialIdx\<close>.
\<close>
definition addInstance_list ::
  "ModelGroup \<Rightarrow> u32 \<Rightarrow> u32 \<Rightarrow> InstanceData list \<Rightarrow> error + (u32 \<times> ModelGroup)" where
  "addInstance_list g modelIdx partIdx' datas =
     (if 2147483647 < length datas then Inl SignedOverflow
      else Inr (of_nat (length (instances g)),
                g\<lparr>instances := instances g
                       @ replicate (length datas) \<lparr>modelIndex = modelIdx, partIndex = partIdx'\<rparr>,
                  instanceDatas := instanceDatas g @ datas\<rparr>))"

definition addInstance_data ::
  "ModelGroup \<Rightarrow> u32 \<Rightarrow> u32 \<Rightarrow> InstanceData \<Rightarrow> u32 \<times> ModelGroup" where
  "addInstance_data g modelIdx partIdx' data =
     (of_nat (length (instances g)),
      g\<lparr>instances := instances g @ [\<lparr>modelIndex = modelIdx, partIndex = partIdx'\<rparr>],
        instanceDatas := instanceDatas g @ [data]\<rparr>)"

definition addInstance_mat ::
  "ModelGroup \<Rightarrow> u32 \<Rightarrow> u32 \<Rightarrow> mat4 \<Rightarrow> error + (u32 \<times> ModelGroup)" where
  "addInstance_mat g modelIdx partIdx' modelMat' =
     (case get_part (models g) modelIdx partIdx' of
        Inl e \<Rightarrow> Inl e
      | Inr p \<Rightarrow>
          Inr (of_nat (length (instances g)),
               g\<lparr>instances := instances g @ [\<lparr>modelIndex = modelIdx, partIndex = partIdx'\<rparr>],
                 instanceDatas := instanceDatas g
                    @ [\<lparr>materialIndex = materialIdx p, modelMat = modelMat'\<rparr>]\<rparr>))"

section \<open>prepare and the device buffers\<close>

text \<open>
  Modelled from the spec: the device layer.  \<^verbatim>\<open>VulkanDevice::createBuffer\<close>,
  \<^verbatim>\<open>Texture2DArray::buildFromImages\<close> and the \<^verbatim>\<open>VK_CHECK_RESULT\<close> macro belong to
  VulkanDevice.hpp, VulkanTexture.hpp and VulkanTools.h.  A buffer request of a given size in
  bytes succeeds or not; building the texture array from a list of paths and a side length
  succeeds or not (a path that cannot be decoded is fatal); a failure is fatal to the
  operation that meets it.
\<close>
record VulkanDevice =
  createBuffer :: "nat \<Rightarrow> bool"
  buildFromImages :: "string list \<Rightarrow> u32 \<Rightarrow> bool"

text \<open>
  \<^verbatim>\<open>std::find(v.begin(), v.end(), x)\<close> as the distance from \<^verbatim>\<open>v.begin()\<close>: the position of
  the first element equal to \<open>x\<close>, or the size of \<open>v\<close> (\<^verbatim>\<open>v.end()\<close>) when there is none.
\<close>
fun std_find :: "'a list \<Rightarrow> 'a \<Rightarrow> nat" where
  "std_find [] x = 0"
| "std_find (y # ys) x = (if y = x then 0 else Suc (std_find ys x))"

text \<open>
  The first loop of \<^verbatim>\<open>prepare\<close>, on the materials still to scan: it builds \<^verbatim>\<open>mapDic\<close>.
\<close>
fun scan_maps :: "aiMaterial list \<Rightarrow> string list \<Rightarrow> string list" where
  "scan_maps [] mapDic = mapDic"
| "scan_maps (mat # rest) mapDic =
     (let Md = GetTexture mat in
      if length Md = 0 then scan_maps rest mapDic
      else if std_find mapDic Md \<noteq> length mapDic then scan_maps rest mapDic
      else scan_maps rest (mapDic @ [Md]))"

text \<open>\<^verbatim>\<open>Material mat;\<close> with the default member initialisers.\<close>
definition Material_new :: Material where
  "Material_new =
     \<lparr>Ka = vec4_default, Kd = vec4_default, Ks = vec4_default, Ke = vec4_default,
      Ma = 0, Md = 0, Me = 0, Ns = 0, Ni = 1.5, d_opacity = 1.0, Nm = 0.005, Nr = 1.0\<rparr>"

text \<open>\<^verbatim>\<open>v.x = pColor.r; v.y = pColor.g; v.z = pColor.b;\<close>\<close>
definition set_rgb :: "aiColor3D \<Rightarrow> vec4 \<Rightarrow> vec4" where
  "set_rgb pColor v = Vec4 (col_r pColor) (col_g pColor) (col_b pColor) (vec4_w v)"

text \<open>
  The body of the second loop of \<^verbatim>\<open>prepare\<close>: the packed material of one \<^verbatim>\<open>aiMaterial\<close>.
  An absent colour is packed as black.  The line written to \<^verbatim>\<open>std::cout\<close> is left out.
\<close>
definition pack_material :: "string list \<Rightarrow> aiMaterial \<Rightarrow> Material" where
  "pack_material mapDic aiMat =
     (let mat = Material_new;
          pColor = aiColor3D 0 0 0;
          pColor = GetColor (COLOR_AMBIENT aiMat) pColor;
          mat = mat\<lparr>Ka := set_rgb pColor (Ka mat)\<rparr>;
          pColor = GetColor (COLOR_DIFFUSE aiMat) pColor;
          mat = mat\<lparr>Kd := set_rgb pColor (Kd mat)\<rparr>;
          pColor = GetColor (COLOR_SPECULAR aiMat) pColor;
          mat = mat\<lparr>Ks := set_rgb pColor (Ks mat)\<rparr>;
          pColor = GetColor (COLOR_EMISSIVE aiMat) pColor;
          mat = mat\<lparr>Ke := set_rgb pColor (Ke mat)\<rparr>;
          mat = mat\<lparr>Ns := Get (SHININESS aiMat) (Ns mat)\<rparr>;
          mat = (if Ns mat = 0 then mat\<lparr>Nr := 0.2\<rparr> else mat\<lparr>Nr := 10.0 / Ns mat\<rparr>);
          mat = mat\<lparr>Nm := 0.9\<rparr>;
          mapFile = GetTexture aiMat
      in if std_find mapDic mapFile \<noteq> length mapDic
         then mat\<lparr>Md := of_nat (std_find mapDic mapFile)\<rparr>
         else mat)"

text \<open>\<^verbatim>\<open>sizeof(vks::Material)\<close> and \<^verbatim>\<open>sizeof(InstanceData)\<close> in bytes, and the 256 of the table.\<close>
definition sizeof_Material :: nat where
  "sizeof_Material = 96"

definition sizeof_InstanceData :: nat where
  "sizeof_InstanceData = 68"

definition material_table_entries :: nat where
  "material_table_entries = 256"

text \<open>
  \<^verbatim>\<open>memcpy(materialsBuff.mapped, materials.data(), sizeof(vks::Material)*materials.size())\<close>:
  the copy is as long as \<^verbatim>\<open>materials\<close>, whatever the size of the buffer.
\<close>
definition updateMaterialBuffer :: "ModelGroup \<Rightarrow> error + ModelGroup" where
  "updateMaterialBuffer g =
     (case materialsBuff g of
        None \<Rightarrow> Inl NullPointer
      | Some table \<Rightarrow>
         if sizeof_Material * length table < sizeof_Material * length (materials g)
         then Inl OutOfBounds
         else Inr (g\<lparr>materialsBuff :=
                      Some (map Some (materials g) @ drop (length (materials g)) table)\<rparr>))"

text \<open>\<^verbatim>\<open>buildMaterialBuffer\<close>: a mapped buffer of \<^verbatim>\<open>sizeof(vks::Material)*256\<close> bytes.\<close>
definition buildMaterialBuffer :: "VulkanDevice \<Rightarrow> ModelGroup \<Rightarrow> error + ModelGroup" where
  "buildMaterialBuffer dev g =
     (if \<not> createBuffer dev (sizeof_Material * material_table_entries)
      then Inl ResourceAllocationFailed
      else updateMaterialBuffer
             (g\<lparr>materialsBuff := Some (replicate material_table_entries None)\<rparr>))"

text \<open>
  \<^verbatim>\<open>memcpy(instanceBuff.mapped, instanceDatas.data(), instanceDatas.size() * sizeof(InstanceData))\<close>
\<close>
definition updateInstancesBuffer :: "ModelGroup \<Rightarrow> error + ModelGroup" where
  "updateInstancesBuffer g =
     (case instanceBuff g of
        None \<Rightarrow> Inl NullPointer
      | Some buf \<Rightarrow>
         if sizeof_InstanceData * length buf < sizeof_InstanceData * length (instanceDatas g)
         then Inl OutOfBounds
         else Inr (g\<lparr>instanceBuff :=
                      Some (map Some (instanceDatas g) @ drop (length (instanceDatas g)) buf)\<rparr>))"

text \<open>
  \<^verbatim>\<open>buildInstanceBuffer\<close>: an existing buffer (\<^verbatim>\<open>instanceBuff.size > 0\<close>) is destroyed, a
  mapped buffer of \<^verbatim>\<open>instanceDatas.size() * sizeof(InstanceData)\<close> bytes is created and filled.
\<close>
definition buildInstanceBuffer :: "VulkanDevice \<Rightarrow> ModelGroup \<Rightarrow> error + ModelGroup" where
  "buildInstanceBuffer dev g =
     (let g1 = (if instanceBuff g \<noteq> None \<and> instanceBuff g \<noteq> Some []
                then g\<lparr>instanceBuff := None\<rparr> else g)
      in if \<not> createBuffer dev (length (instanceDatas g1) * sizeof_InstanceData)
         then Inl ResourceAllocationFailed
         else updateInstancesBuffer
                (g1\<lparr>instanceBuff := Some (replicate (length (instanceDatas g1)) None)\<rparr>))"

text \<open>
  \<^verbatim>\<open>void prepare()\<close>.  The two staging buffers and the two device-local buffers are created
  with the 32-bit sizes \<^verbatim>\<open>vBufferSize\<close> and \<^verbatim>\<open>iBufferSize\<close>; the device-local buffers receive
  the first \<^verbatim>\<open>vBufferSize\<close> and \<^verbatim>\<open>iBufferSize\<close> bytes of the host vectors.  After the copy comes
  \<^verbatim>\<open>if (mapDic.size()==0) return;\<close>.
\<close>
definition prepare :: "VulkanDevice \<Rightarrow> ModelGroup \<Rightarrow> error + ModelGroup" where
  "prepare dev g =
     (let mapDic = scan_maps (aiMaterials g) [];
          g1 = g\<lparr>materials := materials g @ map (pack_material mapDic) (aiMaterials g)\<rparr>;
          vBufferSize = (of_nat (length (vertexBuffer g1)) :: u32) * 4;
          iBufferSize = (of_nat (length (indexBuffer g1)) :: u32) * 4
      in
      if \<not> createBuffer dev (unat vBufferSize) then Inl ResourceAllocationFailed
      else if \<not> createBuffer dev (unat iBufferSize) then Inl ResourceAllocationFailed
      else if \<not> createBuffer dev (unat vBufferSize) then Inl ResourceAllocationFailed
      else if \<not> createBuffer dev (unat iBufferSize) then Inl ResourceAllocationFailed
      else
        let g2 = g1\<lparr>vertices := Some (take (unat vBufferSize div 4) (vertexBuffer g1)),
                    indices := Some (take (unat iBufferSize div 4) (indexBuffer g1))\<rparr>
        in
        if length mapDic = 0 then Inr g2
        else if \<not> buildFromImages dev mapDic (texSize g2) then Inl TextureDecodeFailed
        else
          (case buildInstanceBuffer dev (g2\<lparr>texArray := Some mapDic\<rparr>) of
             Inl e \<Rightarrow> Inl e
           | Inr g3 \<Rightarrow> buildMaterialBuffer dev g3))"

section \<open>Auxiliary notions for the properties\<close>

text \<open>The (model, part) key that the loop of \<open>buildCommandBuffer\<close> holds in its locals.\<close>
definition batch_key :: "batch \<Rightarrow> DrawCommand" where
  "batch_key b = \<lparr>modelIndex = modIdx b, partIndex = partIdx b\<rparr>"

text \<open>The draw of the pending run once \<open>n\<close> more instances have joined it.\<close>
definition batch_draw :: "Model list \<Rightarrow> batch \<Rightarrow> nat \<Rightarrow> DrawIndexed" where
  "batch_draw ms b n =
     (let p = parts (ms ! unat (modIdx b)) ! unat (partIdx b) in
      \<lparr>draw_indexCount = indexCount p, instanceCount = instCount b + of_nat n,
       firstIndex = indexBase p, vertexOffset = vertexBase p,
       firstInstance = instOffset b\<rparr>)"

text \<open>What \<open>buildCommandBuffer\<close> does with the outcome of its loop.\<close>
definition flush ::
  "Model list \<Rightarrow> error + (batch \<times> DrawIndexed list) \<Rightarrow> error + DrawIndexed list" where
  "flush ms r =
     (case r of
        Inl e \<Rightarrow> Inl e
      | Inr (b, cmdBuff') \<Rightarrow>
         (if instCount b = 0 then Inr cmdBuff'
          else vkCmdDrawIndexed ms cmdBuff' (modIdx b) (partIdx b) (instCount b) (instOffset b)))"

text \<open>
  Two loaded models, the first with one part and the second with two, and the instance list
  \<open>[(M0,P0), (M0,P0), (M1,P1), (M0,P0)]\<close>.
\<close>
definition example_dim :: Dimension where
  "example_dim = \<lparr>min_dim = Vec3 0 0 0, max_dim = Vec3 1 1 1, size_dim = Vec3 1 1 1\<rparr>"

definition example_models :: "Model list" where
  "example_models =
     [\<lparr>parts = [\<lparr>vertexBase = 0, vertexCount = 4, indexBase = 0, indexCount = 6, materialIdx = 0\<rparr>],
       dim = example_dim\<rparr>,
      \<lparr>parts = [\<lparr>vertexBase = 4, vertexCount = 3, indexBase = 6, indexCount = 3, materialIdx = 1\<rparr>,
                \<lparr>vertexBase = 7, vertexCount = 8, indexBase = 9, indexCount = 36, materialIdx = 1\<rparr>],
       dim = example_dim\<rparr>]"

definition example_instances :: "DrawCommand list" where
  "example_instances =
     [\<lparr>modelIndex = 0, partIndex = 0\<rparr>, \<lparr>modelIndex = 0, partIndex = 0\<rparr>,
      \<lparr>modelIndex = 1, partIndex = 1\<rparr>, \<lparr>modelIndex = 0, partIndex = 0\<rparr>]"

subsection \<open>What a scene contributes\<close>

text \<open>The indices of the faces of a mesh that have exactly three indices, face after face.\<close>
definition tri_indices :: "aiMesh \<Rightarrow> u32 list" where
  "tri_indices mesh = concat (map mIndices (filter (\<lambda>f. length (mIndices f) = 3) (mFaces mesh)))"

definition scene_indices :: "aiScene \<Rightarrow> u32 list" where
  "scene_indices pScene = concat (map tri_indices (mMeshes pScene))"

text \<open>The vertex positions of a scene as imported, mesh after mesh.\<close>
definition scene_positions :: "aiScene \<Rightarrow> aiVector3D list" where
  "scene_positions pScene = concat (map mVertices (mMeshes pScene))"

text \<open>
  The number of floats of a component, as in \<^verbatim>\<open>VertexLayout::stride()\<close> (VulkanModel.hpp),
  and the number of floats of a vertex of a layout.
\<close>
fun component_floats :: "Component \<Rightarrow> nat" where
  "component_floats VERTEX_COMPONENT_UV = 2"
| "component_floats VERTEX_COMPONENT_DUMMY_FLOAT = 1"
| "component_floats VERTEX_COMPONENT_DUMMY_VEC4 = 4"
| "component_floats _ = 3"

definition stride_floats :: "Component list \<Rightarrow> nat" where
  "stride_floats lay = sum_list (map component_floats lay)"

text \<open>The parts that the meshes of a scene become, from given values of the two counters.\<close>
fun mesh_parts :: "u32 \<Rightarrow> u32 \<Rightarrow> u32 \<Rightarrow> aiMesh list \<Rightarrow> ModelPart list" where
  "mesh_parts vc ic mo [] = []"
| "mesh_parts vc ic mo (mesh # rest) =
     \<lparr>vertexBase = vc, vertexCount = of_nat (length (mVertices mesh)),
      indexBase = ic, indexCount = of_nat (length (tri_indices mesh)),
      materialIdx = mMaterialIndex mesh + mo\<rparr>
     # mesh_parts (vc + of_nat (length (mVertices mesh)))
         (ic + of_nat (length (tri_indices mesh))) mo rest"


text \<open>The offset, in floats, of the first position component within a vertex of a layout.\<close>
fun pos_offset :: "Component list \<Rightarrow> nat option" where
  "pos_offset [] = None"
| "pos_offset (c # cs) =
     (if c = VERTEX_COMPONENT_POSITION then Some 0
      else map_option (\<lambda>off. component_floats c + off) (pos_offset cs))"

text \<open>
  The floats of one vertex in the vertex buffer: as many as the layout says, with the
  position, Y negated, at the offset of the position component (when the layout has one).
\<close>
definition vertex_block :: "Component list \<Rightarrow> vec3 \<Rightarrow> float list \<Rightarrow> bool" where
  "vertex_block lay p blk \<longleftrightarrow>
     length blk = stride_floats lay \<and>
     (case pos_offset lay of
        None \<Rightarrow> True
      | Some off \<Rightarrow> take 3 (drop off blk) = [vec_x p, - vec_y p, vec_z p])"



text \<open>\<^verbatim>\<open>uint32_t VertexLayout::stride()\<close>, in bytes.\<close>
fun stride :: "Component list \<Rightarrow> u32" where
  "stride [] = 0"
| "stride (VERTEX_COMPONENT_UV # cs) = 2 * 4 + stride cs"
| "stride (VERTEX_COMPONENT_DUMMY_FLOAT # cs) = 4 + stride cs"
| "stride (VERTEX_COMPONENT_DUMMY_VEC4 # cs) = 4 * 4 + stride cs"
| "stride (c # cs) = 3 * 4 + stride cs"

subsection \<open>Sequences of addModel calls and the totals over all parts\<close>

text \<open>
  One \<open>addModel\<close> call after the other on the same group, each with its file name and flags;
  the returned indices and the output are dropped.
\<close>
fun addModels :: "Importer \<Rightarrow> ModelGroup \<Rightarrow> (string \<times> int) list \<Rightarrow> error + ModelGroup" where
  "addModels ReadFile g [] = Inr g"
| "addModels ReadFile g ((filename, flags) # calls) =
     (case addModel ReadFile g filename flags of
        Inl e \<Rightarrow> Inl e
      | Inr (ret, out, g') \<Rightarrow> addModels ReadFile g' calls)"

text \<open>The scenes that the importer delivers for a sequence of calls.\<close>
fun loaded_scenes :: "Importer \<Rightarrow> (string \<times> int) list \<Rightarrow> aiScene list" where
  "loaded_scenes ReadFile [] = []"
| "loaded_scenes ReadFile ((filename, flags) # calls) =
     (case ReadFile filename flags of
        Inl diagnostic \<Rightarrow> loaded_scenes ReadFile calls
      | Inr pScene \<Rightarrow> pScene # loaded_scenes ReadFile calls)"

text \<open>The sums of \<open>part.indexCount\<close> and of \<open>part.vertexCount\<close> over all parts of all models.\<close>
definition total_indexCount :: "Model list \<Rightarrow> nat" where
  "total_indexCount ms = sum_list (map (\<lambda>p. unat (indexCount p)) (concat (map parts ms)))"

definition total_vertexCount :: "Model list \<Rightarrow> nat" where
  "total_vertexCount ms = sum_list (map (\<lambda>p. unat (vertexCount p)) (concat (map parts ms)))"

text \<open>The counters, the part counts and the shared buffers agree.\<close>
definition counters_agree :: "ModelGroup \<Rightarrow> bool" where
  "counters_agree g \<longleftrightarrow>
     total_indexCount (models g) = length (indexBuffer g) \<and>
     unat (indexCount_grp g) = length (indexBuffer g) \<and>
     total_vertexCount (models g) = unat (vertexCount_grp g) \<and>
     length (vertexBuffer g) = stride_floats (layout g) * unat (vertexCount_grp g)"

subsection \<open>Bounding boxes\<close>




subsection \<open>An example scene\<close>

text \<open>
  A material with a diffuse colour, shininess 20 and a diffuse texture; a mesh of three
  vertices with normals, one triangle and one two-index face; a scene of that mesh twice; a
  scene whose only vertex is \<open>(1, 2, 3)\<close>; a scene of the two vertices \<open>(0, 1, 0)\<close> and
  \<open>(0, -1, 0)\<close>; an importer that knows three files.
\<close>
definition example_material :: aiMaterial where
  "example_material =
     \<lparr>COLOR_AMBIENT = None, COLOR_DIFFUSE = Some (aiColor3D 1 0 0), COLOR_SPECULAR = None,
      COLOR_EMISSIVE = None, SHININESS = Some 20, TEXTURE_DIFFUSE = Some ''wood.png''\<rparr>"

definition example_mesh :: aiMesh where
  "example_mesh =
     \<lparr>mVertices = [Vec3 0 0 0, Vec3 1 0 0, Vec3 0 2 0],
      mNormals = Some [Vec3 0 0 1, Vec3 0 0 1, Vec3 0 0 1],
      mTextureCoords0 = None, mTangents = None, mBitangents = None,
      mFaces = [\<lparr>mIndices = [0, 1, 2]\<rparr>, \<lparr>mIndices = [0, 1]\<rparr>],
      mMaterialIndex = 0\<rparr>"

definition example_scene :: aiScene where
  "example_scene = \<lparr>mMaterials = [example_material], mMeshes = [example_mesh, example_mesh]\<rparr>"

definition example_point_scene :: aiScene where
  "example_point_scene =
     \<lparr>mMaterials = [example_material],
      mMeshes = [\<lparr>mVertices = [Vec3 1 2 3], mNormals = Some [Vec3 0 0 1],
                  mTextureCoords0 = None, mTangents = None, mBitangents = None,
                  mFaces = [], mMaterialIndex = 0\<rparr>]\<rparr>"

definition example_pair_scene :: aiScene where
  "example_pair_scene =
     \<lparr>mMaterials = [example_material],
      mMeshes = [\<lparr>mVertices = [Vec3 0 1 0, Vec3 0 (- 1) 0],
                  mNormals = Some [Vec3 0 0 1, Vec3 0 0 1],
                  mTextureCoords0 = None, mTangents = None, mBitangents = None,
                  mFaces = [], mMaterialIndex = 0\<rparr>]\<rparr>"

definition example_ReadFile :: Importer where
  "example_ReadFile filename flags =
     (if filename = ''two.obj'' then Inr example_scene
      else if filename = ''point.obj'' then Inr example_point_scene
      else if filename = ''pair.obj'' then Inr example_pair_scene
      else Inl ''No suitable reader found'')"

text \<open>The group after loading one of the two files, and after three calls in a row.\<close>
definition example_two_group :: ModelGroup where
  "example_two_group = snd (snd (projr (addModel example_ReadFile ModelGroup_new ''two.obj'' 0)))"

definition example_point_group :: ModelGroup where
  "example_point_group =
     snd (snd (projr (addModel example_ReadFile ModelGroup_new ''point.obj'' 0)))"

definition example_pair_group :: ModelGroup where
  "example_pair_group =
     snd (snd (projr (addModel example_ReadFile ModelGroup_new ''pair.obj'' 0)))"

definition example_calls :: "(string \<times> int) list" where
  "example_calls = [(''two.obj'', 0), (''none.obj'', 0), (''point.obj'', 0)]"

definition example_loaded_group :: ModelGroup where
  "example_loaded_group =
     projr (addModels example_ReadFile
              (ModelGroup_new\<lparr>layout := [VERTEX_COMPONENT_POSITION, VERTEX_COMPONENT_UV]\<rparr>)
              example_calls)"

text \<open>The definitions that evaluating \<open>addModel\<close> on the examples unfolds.\<close>
lemmas addModel_eval =
  addModel_def load_mesh_def at_index_def at_index_opt_def Get_def GetColor_def fold_dim_def
  Model_new_def
  ModelPart_zero_def vec3_minus_def ModelGroup_new_def example_ReadFile_def example_scene_def
  example_point_scene_def example_mesh_def example_material_def Let_def vec3_default_def
  HasTangentsAndBitangents_def example_two_group_def example_point_group_def
  example_loaded_group_def example_calls_def example_pair_scene_def example_pair_group_def

subsection \<open>The texture path registry and examples for prepare\<close>

text \<open>The registry of texture paths that \<open>prepare\<close> builds in its local \<^verbatim>\<open>mapDic\<close>.\<close>
definition registry :: "ModelGroup \<Rightarrow> string list" where
  "registry g = scan_maps (aiMaterials g) []"

text \<open>The diffuse texture paths of the materials of a group, in scan order.\<close>
definition diffuse_paths :: "ModelGroup \<Rightarrow> string list" where
  "diffuse_paths g = map GetTexture (aiMaterials g)"

text \<open>
  A device on which every request succeeds; materials without a texture and with another
  texture; a group whose four materials use two textures, a group whose only material has
  no texture, each with one instance; a group with 257 packed materials and a group with
  257 imported materials, all of one texture.
\<close>
definition example_device :: VulkanDevice where
  "example_device = \<lparr>createBuffer = (\<lambda>size. True), buildFromImages = (\<lambda>paths size. True)\<rparr>"

definition example_plain_material :: aiMaterial where
  "example_plain_material =
     \<lparr>COLOR_AMBIENT = None, COLOR_DIFFUSE = Some (aiColor3D 0 1 0), COLOR_SPECULAR = None,
      COLOR_EMISSIVE = None, SHININESS = None, TEXTURE_DIFFUSE = None\<rparr>"

definition example_stone_material :: aiMaterial where
  "example_stone_material =
     \<lparr>COLOR_AMBIENT = None, COLOR_DIFFUSE = None, COLOR_SPECULAR = None,
      COLOR_EMISSIVE = None, SHININESS = Some 4, TEXTURE_DIFFUSE = Some ''stone.png''\<rparr>"

definition example_instanceData :: InstanceData where
  "example_instanceData =
     \<lparr>materialIndex = 0, modelMat = [1, 0, 0, 0, 0, 1, 0, 0, 0, 0, 1, 0, 0, 0, 0, 1]\<rparr>"

definition example_textured_group :: ModelGroup where
  "example_textured_group =
     ModelGroup_new
       \<lparr>instances := [\<lparr>modelIndex = 0, partIndex = 0\<rparr>],
        instanceDatas := [example_instanceData],
        aiMaterials := [example_material, example_plain_material, example_stone_material,
                        example_material]\<rparr>"

definition example_plain_group :: ModelGroup where
  "example_plain_group =
     ModelGroup_new
       \<lparr>instances := [\<lparr>modelIndex = 0, partIndex = 0\<rparr>],
        instanceDatas := [example_instanceData],
        aiMaterials := [example_plain_material]\<rparr>"

definition example_crowded_group :: ModelGroup where
  "example_crowded_group = ModelGroup_new\<lparr>materials := replicate 257 Material_new\<rparr>"

definition example_crowded_assets :: ModelGroup where
  "example_crowded_assets = ModelGroup_new\<lparr>aiMaterials := replicate 257 example_material\<rparr>"

text \<open>The textured group after \<open>prepare\<close>.\<close>
definition example_prepared_group :: ModelGroup where
  "example_prepared_group = projr (prepare example_device example_textured_group)"

text \<open>The definitions that evaluating \<open>prepare\<close> on the examples unfolds.\<close>
lemmas prepare_eval =
  prepare_def buildInstanceBuffer_def updateInstancesBuffer_def buildMaterialBuffer_def
  updateMaterialBuffer_def pack_material_def Material_new_def set_rgb_def vec4_default_def
  Get_def GetColor_def GetTexture_def Let_def ModelGroup_new_def registry_def diffuse_paths_def
  example_device_def example_material_def example_plain_material_def
  example_stone_material_def example_instanceData_def example_textured_group_def
  example_plain_group_def example_crowded_group_def sizeof_Material_def
  sizeof_InstanceData_def material_table_entries_def example_prepared_group_def

subsection \<open>Scenes beyond the range of the counters\<close>

text \<open>A mesh can be loaded: its material exists and no component of a vertex fails.\<close>
definition mesh_loads :: "Component list \<Rightarrow> aiScene \<Rightarrow> aiMesh \<Rightarrow> bool" where
  "mesh_loads lay pScene mesh \<longleftrightarrow>
     unat (mMaterialIndex mesh) < length (mMaterials pScene) \<and>
     (\<forall>j<length (mVertices mesh). \<forall>c\<in>set lay. \<forall>pPos pColor.
        \<exists>fs. emit_component mesh j pPos pColor c = Inr fs)"

text \<open>
  A scene of one mesh with 1431655766 triangles on three vertices (4294967298 indices), a
  scene of four meshes with \<open>2^30\<close> vertices each and no face, and an importer for them.
\<close>
definition example_triangles_scene :: aiScene where
  "example_triangles_scene =
     \<lparr>mMaterials = [example_material],
      mMeshes = [example_mesh\<lparr>mFaces := replicate 1431655766 \<lparr>mIndices = [0, 1, 2]\<rparr>\<rparr>]\<rparr>"

definition example_vertices_mesh :: aiMesh where
  "example_vertices_mesh =
     \<lparr>mVertices = replicate 1073741824 (Vec3 0 0 0),
      mNormals = Some (replicate 1073741824 (Vec3 0 0 1)),
      mTextureCoords0 = None, mTangents = None, mBitangents = None,
      mFaces = [], mMaterialIndex = 0\<rparr>"

definition example_vertices_scene :: aiScene where
  "example_vertices_scene =
     \<lparr>mMaterials = [example_material],
      mMeshes = [example_vertices_mesh, example_vertices_mesh, example_vertices_mesh,
                 example_vertices_mesh]\<rparr>"

definition example_huge_ReadFile :: Importer where
  "example_huge_ReadFile filename flags =
     (if filename = ''triangles.obj'' then Inr example_triangles_scene
      else if filename = ''vertices.obj'' then Inr example_vertices_scene
      else Inl ''No suitable reader found'')"

definition example_triangles_group :: ModelGroup where
  "example_triangles_group =
     projr (addModels example_huge_ReadFile ModelGroup_new [(''triangles.obj'', 0)])"

definition example_vertices_group :: ModelGroup where
  "example_vertices_group =
     projr (addModels example_huge_ReadFile ModelGroup_new [(''vertices.obj'', 0)])"

section \<open>Properties of buildCommandBuffer\<close>

subsection \<open>The runs of a list\<close>

lemma takeWhile_eq_replicate:
  "takeWhile (\<lambda>j. j = k) ks = replicate (length (takeWhile (\<lambda>j. j = k) ks)) k"
  by (induction ks) auto

text \<open>The runs, laid end to end, are the list.\<close>
lemma runs_concat:
  "concat (map (\<lambda>(k, off, n). replicate n k) (runs off ks)) = ks"
proof (induction off ks rule: runs.induct)
  case (1 off)
  show ?case by simp
next
  case (2 off k ks)
  have "replicate (length (takeWhile (\<lambda>j. j = k) ks)) k @ dropWhile (\<lambda>j. j = k) ks = ks"
    using takeWhile_eq_replicate [of k ks] takeWhile_dropWhile_id [of "\<lambda>j. j = k" ks] by simp
  with 2 show ?case by simp
qed

text \<open>No run is empty.\<close>
lemma runs_length_pos: "(k, s, n) \<in> set (runs off ks) \<Longrightarrow> 0 < n"
  by (induction off ks rule: runs.induct) auto

lemma hd_dropWhile_neq:
  "dropWhile (\<lambda>j. j = k) ks \<noteq> [] \<Longrightarrow> hd (dropWhile (\<lambda>j. j = k) ks) \<noteq> k"
  using hd_dropWhile [of "\<lambda>j. j = k" ks] by simp

lemma runs_keys_hd: "ks \<noteq> [] \<Longrightarrow> fst (hd (runs off ks)) = hd ks"
  by (cases ks) simp_all

lemma runs_eq_Nil: "runs off ks = [] \<longleftrightarrow> ks = []"
  by (cases ks) simp_all

text \<open>The runs are maximal: two neighbouring runs have different keys.\<close>
lemma runs_maximal: "distinct_adj (map fst (runs off ks))"
proof (induction off ks rule: runs.induct)
  case (1 off)
  show ?case by simp
next
  case (2 off k ks)
  define d where "d = dropWhile (\<lambda>j. j = k) ks"
  define r where "r = runs (off + Suc (length (takeWhile (\<lambda>j. j = k) ks))) d"
  have eq1: "map fst (runs off (k # ks)) = k # map fst r"
    by (simp add: r_def d_def)
  have IH: "distinct_adj (map fst r)"
    using 2 by (simp add: r_def d_def)
  show ?case
  proof (cases "d = []")
    case True
    then have "r = []" by (simp add: r_def)
    then show ?thesis unfolding eq1 by simp
  next
    case False
    then have "r \<noteq> []" by (simp add: r_def runs_eq_Nil)
    moreover have "fst (hd r) \<noteq> k"
      using False hd_dropWhile_neq [of k ks] by (simp add: r_def runs_keys_hd d_def)
    ultimately show ?thesis unfolding eq1 using IH by (cases r) (auto simp: distinct_adj_Cons)
  qed
qed

text \<open>A run (key, start, length) is the stretch of the list at its start, all of its key.\<close>
lemma runs_position:
  "(k, s, n) \<in> set (runs off ks) \<Longrightarrow> off \<le> s \<and> take n (drop (s - off) ks) = replicate n k"
proof (induction off ks arbitrary: k s n rule: runs.induct)
  case (1 off)
  then show ?case by simp
next
  case (2 off k' ks)
  define m where "m = length (takeWhile (\<lambda>j. j = k') ks)"
  define d where "d = dropWhile (\<lambda>j. j = k') ks"
  have split: "ks = replicate m k' @ d"
    using takeWhile_eq_replicate [of k' ks] takeWhile_dropWhile_id [of "\<lambda>j. j = k'" ks]
    by (simp add: m_def d_def)
  from "2.prems" consider "(k, s, n) = (k', off, Suc m)"
    | "(k, s, n) \<in> set (runs (off + Suc m) d)" by (auto simp: m_def d_def)
  then show ?case
  proof cases
    case 1
    have "take m ks = replicate m k'"
      using arg_cong [OF split, of "take m"] by simp
    with 1 show ?thesis by simp
  next
    case 2
    from "2.IH" [of k s n] 2 have le: "off + Suc m \<le> s"
      and tk: "take n (drop (s - (off + Suc m)) d) = replicate n k"
      by (simp_all add: m_def d_def)
    have "drop (s - off) (k' # ks) = drop (s - Suc off) ks"
      using le by (simp add: drop_Cons')
    also have "\<dots> = drop (s - Suc off) (replicate m k' @ d)"
      using arg_cong [OF split, of "drop (s - Suc off)"] .
    also have "\<dots> = drop (s - (off + Suc m)) d"
      using le by simp
    finally show ?thesis using le tk by simp
  qed
qed

subsection \<open>The loop\<close>

lemma vkCmdDrawIndexed_valid:
  "valid_instance ms (batch_key b) \<Longrightarrow>
   vkCmdDrawIndexed ms cb (modIdx b) (partIdx b) (instCount b) (instOffset b)
     = Inr (cb @ [batch_draw ms b 0])"
  by (simp add: vkCmdDrawIndexed_def get_part_def valid_instance_def batch_key_def
      batch_draw_def Let_def)

text \<open>
  From any point of the loop on: the pending run is completed by the instances of its key
  that follow, and the rest of the list is drawn run by run.
\<close>
lemma draw_loop_runs:
  "\<forall>d\<in>set rest. valid_instance ms d \<Longrightarrow> valid_instance ms (batch_key b) \<Longrightarrow>
   i + length rest < 2147483648 \<Longrightarrow> unat (instCount b) + length rest < 4294967296 \<Longrightarrow>
   instCount b \<noteq> 0 \<Longrightarrow>
   flush ms (draw_loop ms rest i b cb)
   = Inr (cb @ batch_draw ms b (length (takeWhile (\<lambda>j. j = batch_key b) rest)) #
       map (run_draw ms) (runs (i + length (takeWhile (\<lambda>j. j = batch_key b) rest))
               (dropWhile (\<lambda>j. j = batch_key b) rest)))"
proof (induction rest arbitrary: i b cb)
  case Nil
  then show ?case by (simp add: flush_def vkCmdDrawIndexed_valid)
next
  case (Cons d rest)
  have i_small: "\<not> 2147483647 \<le> i" using Cons.prems(3) by simp
  show ?case
  proof (cases "modIdx b \<noteq> modelIndex d \<or> partIdx b \<noteq> partIndex d")
    case True
    define b' where "b' = \<lparr>modIdx = modelIndex d, partIdx = partIndex d, instCount = 0 + 1,
      instOffset = of_nat i\<rparr>"
    have key': "batch_key b' = d" by (simp add: b'_def batch_key_def)
    have neq: "d \<noteq> batch_key b" using True by (auto simp: batch_key_def)
    have step: "draw_loop ms (d # rest) i b cb
        = draw_loop ms rest (Suc i) b' (cb @ [batch_draw ms b 0])"
      using True i_small Cons.prems(2) by (simp add: vkCmdDrawIndexed_valid b'_def)
    have IH: "flush ms (draw_loop ms rest (Suc i) b' (cb @ [batch_draw ms b 0])) =
        Inr ((cb @ [batch_draw ms b 0]) @
          batch_draw ms b' (length (takeWhile (\<lambda>j. j = batch_key b') rest)) #
          map (run_draw ms) (runs (Suc i + length (takeWhile (\<lambda>j. j = batch_key b') rest))
               (dropWhile (\<lambda>j. j = batch_key b') rest)))"
      using Cons.prems by (intro Cons.IH) (simp_all add: key', simp_all add: b'_def)
    have rd: "run_draw ms (d, i, Suc n) = batch_draw ms b' n" for n
      by (simp add: run_draw_def batch_draw_def b'_def Let_def)
    show ?thesis
      unfolding step IH using neq by (simp add: key' rd)
  next
    case False
    define b' where "b' = b\<lparr>instCount := instCount b + 1\<rparr>"
    have key': "batch_key b' = batch_key b" by (simp add: b'_def batch_key_def)
    have eq: "d = batch_key b" using False by (simp add: batch_key_def)
    have step: "draw_loop ms (d # rest) i b cb = draw_loop ms rest (Suc i) b' cb"
      using False i_small by (simp add: b'_def)
    have u: "unat (instCount b + 1) = unat (instCount b) + 1"
      using Cons.prems(4) by (subst unat_add_lem [THEN iffD1]) simp_all
    have IH: "flush ms (draw_loop ms rest (Suc i) b' cb) =
        Inr (cb @ batch_draw ms b' (length (takeWhile (\<lambda>j. j = batch_key b') rest)) #
          map (run_draw ms) (runs (Suc i + length (takeWhile (\<lambda>j. j = batch_key b') rest))
               (dropWhile (\<lambda>j. j = batch_key b') rest)))"
    proof (intro Cons.IH)
      show "instCount b' \<noteq> 0" using u by (auto simp: b'_def)
      show "unat (instCount b') + length rest < 4294967296"
        using u Cons.prems(4) by (simp add: b'_def)
    qed (use Cons.prems in \<open>simp_all add: key'\<close>)
    have bd: "batch_draw ms b' n = batch_draw ms b (Suc n)" for n
      by (simp add: batch_draw_def b'_def Let_def add.assoc)
    show ?thesis
      unfolding step IH using eq by (simp add: key' bd)
  qed
qed

text \<open>
  Claim C1, as amended.  For every non-empty instance list of fewer than \<open>2^31\<close> entries, each
  referring to a loaded model and to one of its parts, \<open>buildCommandBuffer\<close> appends to the
  command buffer exactly one indexed draw per maximal contiguous run of equal (model, part)
  keys, in order, with the geometry of the run's part, \<open>instanceCount\<close> the length of the run
  and \<open>firstInstance\<close> its starting offset; runs of the same key that are not adjacent stay
  separate draws (\<open>runs_concat\<close>, \<open>runs_maximal\<close> and \<open>runs_position\<close> say that \<open>runs\<close> lists
  the maximal runs).
\<close>
theorem buildCommandBuffer_runs:
  assumes "insts \<noteq> []" and "length insts < 2147483648"
    and "\<forall>inst\<in>set insts. valid_instance ms inst"
  shows "buildCommandBuffer ms insts cmdBuff = Inr (cmdBuff @ map (run_draw ms) (runs 0 insts))"
proof -
  obtain d rest where insts: "insts = d # rest" using assms(1) by (cases insts) auto
  define b where "b = \<lparr>modIdx = modelIndex d, partIdx = partIndex d, instCount = 1,
    instOffset = 0\<rparr>"
  have key: "batch_key b = d" by (simp add: b_def batch_key_def)
  have "buildCommandBuffer ms insts cmdBuff = flush ms (draw_loop ms rest (Suc 0) b cmdBuff)"
    by (simp add: buildCommandBuffer_def insts flush_def b_def)
  also have "\<dots> = Inr (cmdBuff @
       batch_draw ms b (length (takeWhile (\<lambda>j. j = batch_key b) rest)) #
       map (run_draw ms) (runs (Suc 0 + length (takeWhile (\<lambda>j. j = batch_key b) rest))
               (dropWhile (\<lambda>j. j = batch_key b) rest)))"
    using assms(2,3) by (intro draw_loop_runs) (simp_all add: insts key, simp_all add: b_def)
  also have "\<dots> = Inr (cmdBuff @ map (run_draw ms) (runs 0 insts))"
    unfolding key by (simp add: insts run_draw_def batch_draw_def b_def Let_def)
  finally show ?thesis .
qed

theorem buildCommandBuffer_runs_witness:
  "example_instances \<noteq> [] \<and> length example_instances < 2147483648 \<and>
   list_all (valid_instance example_models) example_instances \<and>
   buildCommandBuffer example_models example_instances [] =
     Inr [\<lparr>draw_indexCount = 6, instanceCount = 2, firstIndex = 0, vertexOffset = 0,
            firstInstance = 0\<rparr>,
          \<lparr>draw_indexCount = 36, instanceCount = 1, firstIndex = 9, vertexOffset = 7,
            firstInstance = 2\<rparr>,
          \<lparr>draw_indexCount = 6, instanceCount = 1, firstIndex = 0, vertexOffset = 0,
            firstInstance = 3\<rparr>]"
  using buildCommandBuffer_runs [of example_instances example_models "[]"]
  by (simp add: example_instances_def example_models_def valid_instance_def run_draw_def)

text \<open>
  Claim C1 as stated, for every instance sequence.  \<open>addInstance\<close> accepts any indices: with
  the instance \<open>(0,0)\<close> added to a group without models, the final draw reads \<^verbatim>\<open>models[0]\<close>
  past the end of \<^verbatim>\<open>models\<close>.  And on the empty sequence of the example group, which has no
  run, the function does not return with zero draws.
\<close>
theorem buildCommandBuffer_unloaded_counterexample:
  "instances (snd (addInstance_data ModelGroup_new 0 0 example_instanceData))
     = [\<lparr>modelIndex = 0, partIndex = 0\<rparr>] \<and>
   models (snd (addInstance_data ModelGroup_new 0 0 example_instanceData)) = [] \<and>
   buildCommandBuffer [] [\<lparr>modelIndex = 0, partIndex = 0\<rparr>] [] = Inl OutOfBounds \<and>
   buildCommandBuffer example_models [] [] = Inl OutOfBounds"
  by (simp add: buildCommandBuffer_def vkCmdDrawIndexed_def get_part_def addInstance_data_def
      ModelGroup_new_def)

text \<open>
  Claim C2.  On the empty instance list the function reads \<^verbatim>\<open>instances[0]\<close> before its loop:
  an access past the end of the instance sequence, not a no-op.
\<close>
theorem buildCommandBuffer_empty:
  "buildCommandBuffer ms [] cmdBuff = Inl OutOfBounds"
  by (simp add: buildCommandBuffer_def)

section \<open>Properties of addModel\<close>

subsection \<open>Faces, components, vertices and meshes, one loop each\<close>

lemma three_indices:
  "length xs = 3 \<Longrightarrow> [xs ! 0, xs ! 1, xs ! 2] = xs"
  by (cases xs; cases "tl xs"; cases "tl (tl xs)") auto

lemma face_loop_eq:
  "face_loop faces (ib, pc, gc) =
     (ib @ concat (map mIndices (filter (\<lambda>f. length (mIndices f) = 3) faces)),
      pc + 3 * of_nat (length (filter (\<lambda>f. length (mIndices f) = 3) faces)),
      gc + 3 * of_nat (length (filter (\<lambda>f. length (mIndices f) = 3) faces)))"
proof (induction faces arbitrary: ib pc gc)
  case Nil
  show ?case by simp
next
  case (Cons f faces)
  show ?case
  proof (cases "length (mIndices f) = 3")
    case True
    then show ?thesis
      by (simp add: Cons three_indices algebra_simps del: One_nat_def)
  next
    case False
    then show ?thesis by (simp add: Cons)
  qed
qed

lemma length_tri_concat:
  "length (concat (map mIndices (filter (\<lambda>f. length (mIndices f) = 3) faces)))
     = 3 * length (filter (\<lambda>f. length (mIndices f) = 3) faces)"
  by (induction faces) auto

lemma face_loop_tri:
  "face_loop (mFaces mesh) (ib, pc, gc) =
     (ib @ tri_indices mesh, pc + of_nat (length (tri_indices mesh)),
      gc + of_nat (length (tri_indices mesh)))"
  by (simp add: face_loop_eq tri_indices_def length_tri_concat)

lemma emit_component_length:
  "emit_component mesh j p c cpt = Inr fs \<Longrightarrow> length fs = component_floats cpt"
  by (cases cpt) (auto split: sum.splits option.splits if_splits)

lemma emit_component_position:
  "emit_component mesh j p c VERTEX_COMPONENT_POSITION = Inr [vec_x p, - vec_y p, vec_z p]"
  by simp

lemma emit_vertex_block:
  "emit_vertex mesh j p c lay vb = Inr vb' \<Longrightarrow> \<exists>fs. vb' = vb @ fs \<and> vertex_block lay p fs"
proof (induction lay arbitrary: vb)
  case Nil
  then show ?case by (simp add: vertex_block_def stride_floats_def)
next
  case (Cons cpt comps)
  from Cons.prems obtain fs1 where e1: "emit_component mesh j p c cpt = Inr fs1"
    and e2: "emit_vertex mesh j p c comps (vb @ fs1) = Inr vb'"
    by (auto split: sum.splits)
  from Cons.IH [OF e2] obtain fs2 where vb': "vb' = (vb @ fs1) @ fs2"
    and blk: "vertex_block comps p fs2" by blast
  have len1: "length fs1 = component_floats cpt" using e1 by (rule emit_component_length)
  have "vertex_block (cpt # comps) p (fs1 @ fs2)"
  proof (cases "cpt = VERTEX_COMPONENT_POSITION")
    case True
    then have "fs1 = [vec_x p, - vec_y p, vec_z p]" using e1 by simp
    then show ?thesis using blk True by (simp add: vertex_block_def stride_floats_def)
  next
    case False
    then show ?thesis using blk len1
      by (auto simp: vertex_block_def stride_floats_def split: option.splits)
  qed
  then show ?case using vb' by auto
qed

lemma vertex_loop_blocks:
  "vertex_loop lay mesh c ps j (vb, dm) = Inr (vb', dm') \<Longrightarrow>
   dm' = fold fold_dim ps dm \<and>
   (\<exists>blocks. vb' = vb @ concat blocks \<and> list_all2 (vertex_block lay) ps blocks)"
proof (induction ps arbitrary: j vb dm)
  case Nil
  then show ?case by simp
next
  case (Cons p ps)
  from Cons.prems obtain vb1 where e1: "emit_vertex mesh j p c lay vb = Inr vb1"
    and e2: "vertex_loop lay mesh c ps (Suc j) (vb1, fold_dim p dm) = Inr (vb', dm')"
    by (auto split: sum.splits)
  from emit_vertex_block [OF e1] obtain fs where vb1: "vb1 = vb @ fs"
    and blk: "vertex_block lay p fs" by blast
  from Cons.IH [OF e2] obtain blocks where dm': "dm' = fold fold_dim ps (fold_dim p dm)"
    and vb': "vb' = vb1 @ concat blocks" and all: "list_all2 (vertex_block lay) ps blocks"
    by blast
  have "vb' = vb @ concat (fs # blocks)" using vb1 vb' by simp
  moreover have "list_all2 (vertex_block lay) (p # ps) (fs # blocks)" using blk all by simp
  ultimately show ?case using dm' by (intro conjI exI [of _ "fs # blocks"]) simp_all
qed

lemma blocks_length:
  "list_all2 (vertex_block lay) ps blocks \<Longrightarrow> length (concat blocks) = stride_floats lay * length ps"
  by (induction rule: list_all2_induct) (simp_all add: vertex_block_def)

text \<open>\<open>stride\<close> counts the bytes of the floats of a vertex.\<close>
lemma stride_bytes: "stride lay = of_nat (4 * stride_floats lay)"
proof (induction lay)
  case Nil
  show ?case by (simp add: stride_floats_def)
next
  case (Cons c cs)
  then show ?case by (cases c) (simp_all add: stride_floats_def algebra_simps)
qed

lemma pos_offset_stride:
  "pos_offset lay = Some off \<Longrightarrow> off + 3 \<le> stride_floats lay"
proof (induction lay arbitrary: off)
  case Nil
  then show ?case by simp
next
  case (Cons c cs)
  then show ?case by (auto simp: stride_floats_def split: if_splits)
qed



lemma load_mesh_Inr:
  assumes "load_mesh pScene mo mesh i (g, model) = Inr (g', model')"
  shows "\<exists>blocks.
     list_all2 (vertex_block (layout g)) (mVertices mesh) blocks \<and>
     g' = g\<lparr>vertexCount_grp := vertexCount_grp g + of_nat (length (mVertices mesh)),
            vertexBuffer := vertexBuffer g @ concat blocks,
            indexBuffer := indexBuffer g @ tri_indices mesh,
            indexCount_grp := indexCount_grp g + of_nat (length (tri_indices mesh))\<rparr> \<and>
     parts model' = (parts model)[i := hd (mesh_parts (vertexCount_grp g) (indexCount_grp g) mo [mesh])] \<and>
     dim model' = (fold fold_dim (mVertices mesh) (dim model))
        \<lparr>size_dim := vec3_minus (max_dim (fold fold_dim (mVertices mesh) (dim model)))
                               (min_dim (fold fold_dim (mVertices mesh) (dim model)))\<rparr>"
proof -
  from assms obtain aim :: aiMaterial and vb dm where
    vl: "vertex_loop (layout g) mesh (GetColor (COLOR_DIFFUSE aim) (aiColor3D 0 0 0))
           (mVertices mesh) 0
           (vertexBuffer g, dim model) = Inr (vb, dm)"
    and res: "(g', model') =
       (case face_loop (mFaces mesh) (indexBuffer g, 0, indexCount_grp g) of
          (ib, partCount, groupCount) \<Rightarrow>
            (g\<lparr>vertexCount_grp := vertexCount_grp g + of_nat (length (mVertices mesh)),
               vertexBuffer := vb, indexBuffer := ib, indexCount_grp := groupCount\<rparr>,
             \<lparr>parts = (parts model)[i := ModelPart_zero
                \<lparr>vertexBase := vertexCount_grp g, indexBase := indexCount_grp g,
                 materialIdx := mMaterialIndex mesh + mo,
                 vertexCount := of_nat (length (mVertices mesh)),
                 indexCount := partCount\<rparr>],
              dim = dm\<lparr>size_dim := vec3_minus (max_dim dm) (min_dim dm)\<rparr>\<rparr>))"
    by (auto simp: load_mesh_def Let_def ModelPart_zero_def split: sum.splits prod.splits)
  from vertex_loop_blocks [OF vl] obtain blocks where dm: "dm = fold fold_dim (mVertices mesh) (dim model)"
    and vb: "vb = vertexBuffer g @ concat blocks"
    and all: "list_all2 (vertex_block (layout g)) (mVertices mesh) blocks" by blast
  show ?thesis
    using res all by (intro exI [of _ blocks]) (simp add: face_loop_tri vb dm ModelPart_zero_def)
qed

lemma fold_dim_size_step:
  "fold_dim p (dm\<lparr>size_dim := v\<rparr>) = (fold_dim p dm)\<lparr>size_dim := v\<rparr>"
  by (cases dm) (simp add: fold_dim_def)

lemma fold_dim_size:
  "fold fold_dim ps (dm\<lparr>size_dim := v\<rparr>) = (fold fold_dim ps dm)\<lparr>size_dim := v\<rparr>"
  by (induction ps arbitrary: dm) (simp_all add: fold_dim_size_step)

lemma mesh_loop_Inr:
  "mesh_loop pScene mo rest i (g, model) = Inr (g', model') \<Longrightarrow>
   i + length rest \<le> length (parts model) \<Longrightarrow>
   (\<exists>blocks.
     list_all2 (vertex_block (layout g)) (concat (map mVertices rest)) blocks \<and>
     g' = g\<lparr>vertexCount_grp := vertexCount_grp g + of_nat (length (concat (map mVertices rest))),
            vertexBuffer := vertexBuffer g @ concat blocks,
            indexBuffer := indexBuffer g @ concat (map tri_indices rest),
            indexCount_grp := indexCount_grp g + of_nat (length (concat (map tri_indices rest)))\<rparr>) \<and>
   parts model' = take i (parts model)
      @ mesh_parts (vertexCount_grp g) (indexCount_grp g) mo rest
      @ drop (i + length rest) (parts model) \<and>
   min_dim (dim model') = min_dim (fold fold_dim (concat (map mVertices rest)) (dim model)) \<and>
   max_dim (dim model') = max_dim (fold fold_dim (concat (map mVertices rest)) (dim model))"
proof (induction rest arbitrary: i g model)
  case Nil
  then show ?case by simp
next
  case (Cons mesh rest)
  from Cons.prems(1) obtain g1 model1 where
    lm: "load_mesh pScene mo mesh i (g, model) = Inr (g1, model1)"
    and ml: "mesh_loop pScene mo rest (Suc i) (g1, model1) = Inr (g', model')"
    by (auto split: sum.splits)
  from load_mesh_Inr [OF lm] obtain blocks1 where
    b1: "list_all2 (vertex_block (layout g)) (mVertices mesh) blocks1"
    and g1: "g1 = g\<lparr>vertexCount_grp := vertexCount_grp g + of_nat (length (mVertices mesh)),
            vertexBuffer := vertexBuffer g @ concat blocks1,
            indexBuffer := indexBuffer g @ tri_indices mesh,
            indexCount_grp := indexCount_grp g + of_nat (length (tri_indices mesh))\<rparr>"
    and p1: "parts model1 = (parts model)[i := hd (mesh_parts (vertexCount_grp g) (indexCount_grp g) mo [mesh])]"
    and d1: "dim model1 = (fold fold_dim (mVertices mesh) (dim model))
        \<lparr>size_dim := vec3_minus (max_dim (fold fold_dim (mVertices mesh) (dim model)))
                               (min_dim (fold fold_dim (mVertices mesh) (dim model)))\<rparr>"
    by blast
  have len1: "Suc i + length rest \<le> length (parts model1)"
    using Cons.prems(2) p1 by simp
  from Cons.IH [OF ml len1] obtain blocks2 where
    b2: "list_all2 (vertex_block (layout g1)) (concat (map mVertices rest)) blocks2"
    and g': "g' = g1\<lparr>vertexCount_grp := vertexCount_grp g1 + of_nat (length (concat (map mVertices rest))),
            vertexBuffer := vertexBuffer g1 @ concat blocks2,
            indexBuffer := indexBuffer g1 @ concat (map tri_indices rest),
            indexCount_grp := indexCount_grp g1 + of_nat (length (concat (map tri_indices rest)))\<rparr>"
    and p': "parts model' = take (Suc i) (parts model1)
      @ mesh_parts (vertexCount_grp g1) (indexCount_grp g1) mo rest
      @ drop (Suc i + length rest) (parts model1)"
    and mn: "min_dim (dim model') = min_dim (fold fold_dim (concat (map mVertices rest)) (dim model1))"
    and mx: "max_dim (dim model') = max_dim (fold fold_dim (concat (map mVertices rest)) (dim model1))"
    by blast
  have lay: "layout g1 = layout g" by (simp add: g1)
  have A: "list_all2 (vertex_block (layout g)) (concat (map mVertices (mesh # rest))) (blocks1 @ blocks2)"
    using b1 b2 lay by (simp add: list_all2_appendI)
  have B: "g' = g\<lparr>vertexCount_grp := vertexCount_grp g + of_nat (length (concat (map mVertices (mesh # rest)))),
            vertexBuffer := vertexBuffer g @ concat (blocks1 @ blocks2),
            indexBuffer := indexBuffer g @ concat (map tri_indices (mesh # rest)),
            indexCount_grp := indexCount_grp g + of_nat (length (concat (map tri_indices (mesh # rest))))\<rparr>"
    by (simp add: g' g1 add.assoc)
  have i_lt: "i < length (parts model)" using Cons.prems(2) by simp
  have C: "parts model' = take i (parts model)
      @ mesh_parts (vertexCount_grp g) (indexCount_grp g) mo (mesh # rest)
      @ drop (i + length (mesh # rest)) (parts model)"
    using i_lt by (simp add: p' p1 g1 take_Suc_conv_app_nth)
  have D: "min_dim (dim model') = min_dim (fold fold_dim (concat (map mVertices (mesh # rest))) (dim model))"
    "max_dim (dim model') = max_dim (fold fold_dim (concat (map mVertices (mesh # rest))) (dim model))"
    by (simp_all add: mn mx d1 fold_dim_size)
  from A B C D show ?case by blast
qed

lemma addModel_Inr:
  assumes rf: "ReadFile filename flags = Inr pScene"
    and am: "addModel ReadFile g filename flags = Inr (ret, out, g')"
  shows "ret = sint (of_nat (length (models g)) :: u32) \<and> out = [] \<and>
    (\<exists>blocks model.
       list_all2 (vertex_block (layout g)) (scene_positions pScene) blocks \<and>
       g' = g\<lparr>aiMaterials := aiMaterials g @ mMaterials pScene,
              vertexCount_grp := vertexCount_grp g + of_nat (length (scene_positions pScene)),
              vertexBuffer := vertexBuffer g @ concat blocks,
              indexBuffer := indexBuffer g @ scene_indices pScene,
              indexCount_grp := indexCount_grp g + of_nat (length (scene_indices pScene)),
              models := models g @ [model]\<rparr> \<and>
       parts model = mesh_parts (vertexCount_grp g) (indexCount_grp g)
                       (of_nat (length (aiMaterials g))) (mMeshes pScene) \<and>
       min_dim (dim model) = min_dim (fold fold_dim (scene_positions pScene)
                                 (dim (Model_new (length (mMeshes pScene))))) \<and>
       max_dim (dim model) = max_dim (fold fold_dim (scene_positions pScene)
                                 (dim (Model_new (length (mMeshes pScene))))))"
proof -
  define g0 where "g0 = g\<lparr>aiMaterials := aiMaterials g @ mMaterials pScene\<rparr>"
  define m0 where "m0 = Model_new (length (mMeshes pScene))"
  from am rf obtain g1 model where
    ml: "mesh_loop pScene (of_nat (length (aiMaterials g))) (mMeshes pScene) 0 (g0, m0)
           = Inr (g1, model)"
    and ret: "ret = sint (of_nat (length (models g)) :: u32)" and out: "out = []"
    and g': "g' = g1\<lparr>models := models g1 @ [model]\<rparr>"
    by (auto simp: addModel_def Let_def g0_def m0_def split: sum.splits if_splits)
  have len: "0 + length (mMeshes pScene) \<le> length (parts m0)"
    by (simp add: m0_def Model_new_def)
  from mesh_loop_Inr [OF ml len] obtain blocks where
    b: "list_all2 (vertex_block (layout g0)) (concat (map mVertices (mMeshes pScene))) blocks"
    and g1: "g1 = g0\<lparr>vertexCount_grp := vertexCount_grp g0
                 + of_nat (length (concat (map mVertices (mMeshes pScene)))),
            vertexBuffer := vertexBuffer g0 @ concat blocks,
            indexBuffer := indexBuffer g0 @ concat (map tri_indices (mMeshes pScene)),
            indexCount_grp := indexCount_grp g0
                 + of_nat (length (concat (map tri_indices (mMeshes pScene))))\<rparr>"
    and p: "parts model = take 0 (parts m0)
      @ mesh_parts (vertexCount_grp g0) (indexCount_grp g0) (of_nat (length (aiMaterials g)))
          (mMeshes pScene)
      @ drop (0 + length (mMeshes pScene)) (parts m0)"
    and mn: "min_dim (dim model)
        = min_dim (fold fold_dim (concat (map mVertices (mMeshes pScene))) (dim m0))"
    and mx: "max_dim (dim model)
        = max_dim (fold fold_dim (concat (map mVertices (mMeshes pScene))) (dim m0))"
    by blast
  have "list_all2 (vertex_block (layout g)) (scene_positions pScene) blocks"
    using b by (simp add: g0_def scene_positions_def)
  moreover have "g' = g\<lparr>aiMaterials := aiMaterials g @ mMaterials pScene,
              vertexCount_grp := vertexCount_grp g + of_nat (length (scene_positions pScene)),
              vertexBuffer := vertexBuffer g @ concat blocks,
              indexBuffer := indexBuffer g @ scene_indices pScene,
              indexCount_grp := indexCount_grp g + of_nat (length (scene_indices pScene)),
              models := models g @ [model]\<rparr>"
    by (simp add: g' g1 g0_def scene_positions_def scene_indices_def)
  moreover have "parts model = mesh_parts (vertexCount_grp g) (indexCount_grp g)
                       (of_nat (length (aiMaterials g))) (mMeshes pScene)"
    using p by (simp add: g0_def m0_def Model_new_def)
  ultimately show ?thesis
    using ret out mn mx unfolding m0_def scene_positions_def [symmetric] by blast
qed

subsection \<open>A failed import\<close>




subsection \<open>The index buffer\<close>

lemma length_tri_indices:
  "length (tri_indices mesh) = 3 * length (filter (\<lambda>f. length (mIndices f) = 3) (mFaces mesh))"
  by (simp add: tri_indices_def length_tri_concat)

lemma mesh_parts_map_indexCount:
  "map indexCount (mesh_parts vc ic mo meshes)
     = map (\<lambda>mesh. 3 * of_nat (length (filter (\<lambda>f. length (mIndices f) = 3) (mFaces mesh)))) meshes"
  by (induction meshes arbitrary: vc ic) (simp_all add: length_tri_indices)

lemma length_scene_indices:
  "length (scene_indices pScene)
     = 3 * length (filter (\<lambda>f. length (mIndices f) = 3) (concat (map mFaces (mMeshes pScene))))"
proof -
  have "length (concat (map tri_indices meshes))
      = 3 * length (filter (\<lambda>f. length (mIndices f) = 3) (concat (map mFaces meshes)))" for meshes
    by (induction meshes) (simp_all add: length_tri_indices)
  then show ?thesis by (simp add: scene_indices_def)
qed

text \<open>
  Claim C5, as amended.  On a successful \<open>addModel\<close>, the index buffer grows by the indices
  of the faces with exactly three indices, face after face and mesh after mesh, each value
  as the importer delivered it (relative to the first vertex of its mesh: no base is added);
  the \<open>indexCount\<close> of each part is three times the number of such faces of its mesh, and
  the group's index counter grows by three for each of them; a face with any other number of
  indices adds nothing to the buffer or to a count.
\<close>
theorem addModel_triangle_indices:
  assumes rf: "ReadFile filename flags = Inr pScene"
    and am: "addModel ReadFile g filename flags = Inr (ret, out, g')"
  shows "indexBuffer g' = indexBuffer g @
       concat (map (\<lambda>mesh. concat (map mIndices
                 (filter (\<lambda>f. length (mIndices f) = 3) (mFaces mesh)))) (mMeshes pScene)) \<and>
     map indexCount (parts (last (models g')))
       = map (\<lambda>mesh. 3 * of_nat (length (filter (\<lambda>f. length (mIndices f) = 3) (mFaces mesh))))
           (mMeshes pScene) \<and>
     indexCount_grp g' = indexCount_grp g
       + 3 * of_nat (length (filter (\<lambda>f. length (mIndices f) = 3)
                               (concat (map mFaces (mMeshes pScene)))))"
proof -
  from addModel_Inr [OF rf am] obtain blocks model where
    g': "g' = g\<lparr>aiMaterials := aiMaterials g @ mMaterials pScene,
              vertexCount_grp := vertexCount_grp g + of_nat (length (scene_positions pScene)),
              vertexBuffer := vertexBuffer g @ concat blocks,
              indexBuffer := indexBuffer g @ scene_indices pScene,
              indexCount_grp := indexCount_grp g + of_nat (length (scene_indices pScene)),
              models := models g @ [model]\<rparr>"
    and p: "parts model = mesh_parts (vertexCount_grp g) (indexCount_grp g)
                       (of_nat (length (aiMaterials g))) (mMeshes pScene)"
    by blast
  have 1: "indexBuffer g' = indexBuffer g @
       concat (map (\<lambda>mesh. concat (map mIndices
                 (filter (\<lambda>f. length (mIndices f) = 3) (mFaces mesh)))) (mMeshes pScene))"
    by (simp add: g' scene_indices_def tri_indices_def [abs_def])
  have 2: "map indexCount (parts (last (models g')))
       = map (\<lambda>mesh. 3 * of_nat (length (filter (\<lambda>f. length (mIndices f) = 3) (mFaces mesh))))
           (mMeshes pScene)"
    by (simp add: g' p mesh_parts_map_indexCount)
  have 3: "indexCount_grp g' = indexCount_grp g
       + 3 * of_nat (length (filter (\<lambda>f. length (mIndices f) = 3)
                               (concat (map mFaces (mMeshes pScene)))))"
    by (simp add: g' length_scene_indices)
  from 1 2 3 show ?thesis by blast
qed

theorem addModel_triangle_indices_witness:
  "example_ReadFile ''two.obj'' 0 = Inr example_scene \<and>
   addModel example_ReadFile ModelGroup_new ''two.obj'' 0
     = Inr (0, [], example_two_group) \<and>
   indexBuffer example_two_group
     = [0, 1, 2, 0, 1, 2] \<and>
   map indexCount (parts (last (models
       example_two_group))) = [3, 3] \<and>
   indexCount_grp example_two_group = 6"
  using addModel_triangle_indices [of example_ReadFile "''two.obj''" 0 example_scene
      ModelGroup_new 0 "[]"
      "example_two_group"]
  by (simp add: addModel_eval)

text \<open>
  Claim C5 as stated, with indices that are global: the second mesh of the example scene
  has its three vertices at positions 3, 4 and 5 of the shared vertex buffer, and its
  triangle is stored as \<open>0, 1, 2\<close>.
\<close>
theorem addModel_indices_not_global_counterexample:
  "indexBuffer example_two_group
     = [0, 1, 2, 0, 1, 2] \<and>
   map vertexBase (parts (last (models
       example_two_group))) = [0, 3] \<and>
   map vertexCount (parts (last (models
       example_two_group))) = [3, 3]"
  by (simp add: addModel_eval)

subsection \<open>Counters, part counts and buffers\<close>

lemma unat_of_nat_u32: "n < 4294967296 \<Longrightarrow> unat (of_nat n :: u32) = n"
  by (simp add: unat_of_nat)

lemma unat_add_of_nat_u32:
  "unat (w :: u32) + n < 4294967296 \<Longrightarrow> unat (w + of_nat n) = unat w + n"
  by (subst unat_add_lem [THEN iffD1]) (simp_all add: unat_of_nat_u32)

lemma mesh_parts_indexCount:
  "length (concat (map tri_indices meshes)) < 4294967296 \<Longrightarrow>
   sum_list (map (\<lambda>p. unat (indexCount p)) (mesh_parts vc ic mo meshes))
     = length (concat (map tri_indices meshes))"
  by (induction meshes arbitrary: vc ic) (simp_all add: unat_of_nat_u32)

lemma mesh_parts_vertexCount:
  "length (concat (map mVertices meshes)) < 4294967296 \<Longrightarrow>
   sum_list (map (\<lambda>p. unat (vertexCount p)) (mesh_parts vc ic mo meshes))
     = length (concat (map mVertices meshes))"
  by (induction meshes arbitrary: vc ic) (simp_all add: unat_of_nat_u32)

lemma addModel_counters:
  assumes inv: "counters_agree g"
    and am: "addModel ReadFile g filename flags = Inr (ret, out, g')"
    and rf: "ReadFile filename flags = Inr pScene"
    and vb: "unat (vertexCount_grp g) + length (scene_positions pScene) < 4294967296"
    and ib: "length (indexBuffer g) + length (scene_indices pScene) < 4294967296"
  shows "counters_agree g' \<and>
     length (indexBuffer g') = length (indexBuffer g) + length (scene_indices pScene) \<and>
     unat (vertexCount_grp g') = unat (vertexCount_grp g) + length (scene_positions pScene) \<and>
     layout g' = layout g"
proof -
  from addModel_Inr [OF rf am] obtain blocks model where
    b: "list_all2 (vertex_block (layout g)) (scene_positions pScene) blocks"
    and g': "g' = g\<lparr>aiMaterials := aiMaterials g @ mMaterials pScene,
              vertexCount_grp := vertexCount_grp g + of_nat (length (scene_positions pScene)),
              vertexBuffer := vertexBuffer g @ concat blocks,
              indexBuffer := indexBuffer g @ scene_indices pScene,
              indexCount_grp := indexCount_grp g + of_nat (length (scene_indices pScene)),
              models := models g @ [model]\<rparr>"
    and p: "parts model = mesh_parts (vertexCount_grp g) (indexCount_grp g)
                       (of_nat (length (aiMaterials g))) (mMeshes pScene)"
    by blast
  have ic: "unat (indexCount_grp g) = length (indexBuffer g)"
    and ti: "total_indexCount (models g) = length (indexBuffer g)"
    and tv: "total_vertexCount (models g) = unat (vertexCount_grp g)"
    and lv: "length (vertexBuffer g) = stride_floats (layout g) * unat (vertexCount_grp g)"
    using inv by (simp_all add: counters_agree_def)
  have si: "length (scene_indices pScene) < 4294967296"
    and sp: "length (scene_positions pScene) < 4294967296" using vb ib by simp_all
  have 1: "total_indexCount (models g') = length (indexBuffer g')"
    using mesh_parts_indexCount [of "mMeshes pScene"] si
    by (simp add: g' total_indexCount_def p scene_indices_def ti [unfolded total_indexCount_def])
  have 2: "unat (indexCount_grp g') = length (indexBuffer g')"
    using ib ic by (simp add: g' unat_add_of_nat_u32)
  have 3: "unat (vertexCount_grp g') = unat (vertexCount_grp g) + length (scene_positions pScene)"
    using vb by (simp add: g' unat_add_of_nat_u32)
  have 4: "total_vertexCount (models g') = unat (vertexCount_grp g')"
    unfolding 3 using mesh_parts_vertexCount [of "mMeshes pScene"] sp
    by (simp add: g' total_vertexCount_def p scene_positions_def tv [unfolded total_vertexCount_def])
  have 5: "length (vertexBuffer g') = stride_floats (layout g') * unat (vertexCount_grp g')"
    unfolding 3 using blocks_length [OF b] lv by (simp add: g' algebra_simps)
  show ?thesis using 1 2 3 4 5 by (simp add: counters_agree_def) (simp add: g')
qed

lemma addModel_Inl_unchanged:
  "ReadFile filename flags = Inl diagnostic \<Longrightarrow>
   addModel ReadFile g filename flags = Inr (- 1, [error_line filename diagnostic], g)"
  by (simp add: addModel_def)

lemma addModels_counters:
  "addModels ReadFile g calls = Inr g' \<Longrightarrow> counters_agree g \<Longrightarrow>
   unat (vertexCount_grp g)
     + length (concat (map scene_positions (loaded_scenes ReadFile calls))) < 4294967296 \<Longrightarrow>
   length (indexBuffer g)
     + length (concat (map scene_indices (loaded_scenes ReadFile calls))) < 4294967296 \<Longrightarrow>
   counters_agree g'"
proof (induction calls arbitrary: g)
  case Nil
  then show ?case by simp
next
  case (Cons call calls)
  obtain filename flags where call: "call = (filename, flags)" by (cases call)
  from Cons.prems(1) obtain ret out g1 where
    am: "addModel ReadFile g filename flags = Inr (ret, out, g1)"
    and rest: "addModels ReadFile g1 calls = Inr g'"
    by (auto simp: call split: sum.splits)
  show ?case
  proof (cases "ReadFile filename flags")
    case (Inl diagnostic)
    with am have "g1 = g" by (simp add: addModel_Inl_unchanged)
    with Cons.IH [OF rest] Cons.prems(2-) Inl show ?thesis by (simp add: call)
  next
    case (Inr pScene)
    have "counters_agree g1 \<and>
       length (indexBuffer g1) = length (indexBuffer g) + length (scene_indices pScene) \<and>
       unat (vertexCount_grp g1) = unat (vertexCount_grp g) + length (scene_positions pScene) \<and>
       layout g1 = layout g"
      using Cons.prems(2-) Inr by (intro addModel_counters [OF _ am Inr]) (simp_all add: call)
    with Cons.IH [OF rest] Cons.prems(3-) Inr show ?thesis by (simp add: call add.assoc)
  qed
qed

lemma addModels_totals:
  "addModels ReadFile g calls = Inr g' \<Longrightarrow>
   indexBuffer g' = indexBuffer g @ concat (map scene_indices (loaded_scenes ReadFile calls)) \<and>
   vertexCount_grp g' = vertexCount_grp g
      + of_nat (length (concat (map scene_positions (loaded_scenes ReadFile calls))))"
proof (induction calls arbitrary: g)
  case Nil
  then show ?case by simp
next
  case (Cons call calls)
  obtain filename flags where call: "call = (filename, flags)" by (cases call)
  from Cons.prems(1) obtain ret out g1 where
    am: "addModel ReadFile g filename flags = Inr (ret, out, g1)"
    and rest: "addModels ReadFile g1 calls = Inr g'"
    by (auto simp: call split: sum.splits)
  show ?case
  proof (cases "ReadFile filename flags")
    case (Inl diagnostic)
    with am have "g1 = g" by (simp add: addModel_Inl_unchanged)
    with Cons.IH [OF rest] Inl show ?thesis by (simp add: call)
  next
    case (Inr pScene)
    from addModel_Inr [OF Inr am] have
      "indexBuffer g1 = indexBuffer g @ scene_indices pScene"
      "vertexCount_grp g1 = vertexCount_grp g + of_nat (length (scene_positions pScene))"
      by auto
    with Cons.IH [OF rest] Inr show ?thesis by (simp add: call add.assoc)
  qed
qed

lemma counters_agree_new: "counters_agree (ModelGroup_new\<lparr>layout := lay\<rparr>)"
  by (simp add: counters_agree_def ModelGroup_new_def total_indexCount_def total_vertexCount_def)

text \<open>
  Claim C3, as amended.  After any sequence of \<open>addModel\<close> calls on a new group (of any
  layout) that all return, the scenes loaded having fewer than \<open>2^32\<close> vertices and fewer
  than \<open>2^32\<close> triangle indices in all (the range of the two \<^verbatim>\<open>uint32_t\<close> counters), the sum
  of \<open>indexCount\<close> over all parts of all models is the length of the index buffer and the
  value of the index counter, the sum of \<open>vertexCount\<close> is the value of the vertex counter,
  and the vertex buffer holds that many vertices of the layout; both totals are those of
  the loaded scenes.
\<close>
theorem addModels_counters_agree:
  assumes "addModels ReadFile (ModelGroup_new\<lparr>layout := lay\<rparr>) calls = Inr g"
    and "length (concat (map scene_positions (loaded_scenes ReadFile calls))) < 4294967296"
    and "length (concat (map scene_indices (loaded_scenes ReadFile calls))) < 4294967296"
  shows "total_indexCount (models g) = length (indexBuffer g) \<and>
     unat (indexCount_grp g) = length (indexBuffer g) \<and>
     total_vertexCount (models g) = unat (vertexCount_grp g) \<and>
     length (vertexBuffer g) = stride_floats (layout g) * unat (vertexCount_grp g) \<and>
     indexBuffer g = concat (map scene_indices (loaded_scenes ReadFile calls)) \<and>
     unat (vertexCount_grp g)
       = length (concat (map scene_positions (loaded_scenes ReadFile calls)))"
proof -
  have "counters_agree g"
    using assms by (intro addModels_counters [OF assms(1) counters_agree_new])
      (simp_all add: ModelGroup_new_def)
  moreover have "indexBuffer g = concat (map scene_indices (loaded_scenes ReadFile calls))"
    and "vertexCount_grp g
       = of_nat (length (concat (map scene_positions (loaded_scenes ReadFile calls))))"
    using addModels_totals [OF assms(1)] by (simp_all add: ModelGroup_new_def)
  ultimately show ?thesis using assms(2) by (simp add: counters_agree_def unat_of_nat_u32)
qed

theorem addModels_counters_agree_witness:
  "addModels example_ReadFile
      (ModelGroup_new\<lparr>layout := [VERTEX_COMPONENT_POSITION, VERTEX_COMPONENT_UV]\<rparr>) example_calls
     = Inr example_loaded_group \<and>
   length (concat (map scene_positions (loaded_scenes example_ReadFile example_calls))) = 7 \<and>
   length (concat (map scene_indices (loaded_scenes example_ReadFile example_calls))) = 6 \<and>
   total_indexCount (models example_loaded_group) = 6 \<and>
   length (indexBuffer example_loaded_group) = 6 \<and>
   unat (indexCount_grp example_loaded_group) = 6 \<and>
   total_vertexCount (models example_loaded_group) = 7 \<and>
   unat (vertexCount_grp example_loaded_group) = 7 \<and>
   length (vertexBuffer example_loaded_group) = 35"
  using addModels_counters_agree [of example_ReadFile
      "[VERTEX_COMPONENT_POSITION, VERTEX_COMPONENT_UV]" example_calls example_loaded_group]
  by (simp add: addModel_eval scene_positions_def scene_indices_def
      tri_indices_def total_indexCount_def total_vertexCount_def stride_floats_def)

text \<open>Returning: the vertex loop, the mesh loop and \<open>addModel\<close> on scenes that can be loaded.\<close>
lemma emit_vertex_succeeds:
  "\<forall>c\<in>set lay. \<forall>pPos pColor. \<exists>fs. emit_component mesh j pPos pColor c = Inr fs \<Longrightarrow>
   \<exists>vb'. emit_vertex mesh j p col lay vb = Inr vb'"
proof (induction lay arbitrary: vb)
  case Nil
  show ?case by simp
next
  case (Cons c cs)
  from Cons.prems have "\<exists>fs. emit_component mesh j p col c = Inr fs" by simp
  then obtain fs where e: "emit_component mesh j p col c = Inr fs" by blast
  have "\<exists>vb'. emit_vertex mesh j p col cs (vb @ fs) = Inr vb'"
    using Cons.prems by (intro Cons.IH) simp
  then show ?case using e by simp
qed

lemma vertex_loop_succeeds:
  "\<forall>j'<j + length ps. \<forall>c\<in>set lay. \<forall>pPos pColor.
      \<exists>fs. emit_component mesh j' pPos pColor c = Inr fs \<Longrightarrow>
   \<exists>r. vertex_loop lay mesh col ps j (vb, dm) = Inr r"
proof (induction ps arbitrary: j vb dm)
  case Nil
  show ?case by simp
next
  case (Cons p ps)
  have "\<forall>c\<in>set lay. \<forall>pPos pColor. \<exists>fs. emit_component mesh j pPos pColor c = Inr fs"
    using Cons.prems by simp
  from emit_vertex_succeeds [OF this] obtain vb' where
    e: "emit_vertex mesh j p col lay vb = Inr vb'" by blast
  have "\<exists>r. vertex_loop lay mesh col ps (Suc j) (vb', fold_dim p dm) = Inr r"
    using Cons.prems by (intro Cons.IH) simp
  then show ?case using e by simp
qed

lemma load_mesh_succeeds:
  assumes "mesh_loads (layout g) pScene mesh"
  shows "\<exists>r. load_mesh pScene mo mesh i (g, model) = Inr r"
proof -
  from assms have m: "unat (mMaterialIndex mesh) < length (mMaterials pScene)"
    and v: "\<forall>j'<0 + length (mVertices mesh). \<forall>c\<in>set (layout g). \<forall>pPos pColor.
      \<exists>fs. emit_component mesh j' pPos pColor c = Inr fs"
    by (simp_all add: mesh_loads_def)
  from vertex_loop_succeeds [OF v] obtain r where
    "vertex_loop (layout g) mesh
       (GetColor (COLOR_DIFFUSE (mMaterials pScene ! unat (mMaterialIndex mesh))) (aiColor3D 0 0 0))
       (mVertices mesh) 0 (vertexBuffer g, dim model) = Inr r" by blast
  then show ?thesis using m
    by (cases r) (simp add: load_mesh_def Let_def at_index_def split: prod.splits)
qed

lemma mesh_loop_succeeds:
  "\<forall>mesh\<in>set rest. mesh_loads (layout g) pScene mesh \<Longrightarrow>
   \<exists>r. mesh_loop pScene mo rest i (g, model) = Inr r"
proof (induction rest arbitrary: i g model)
  case Nil
  show ?case by simp
next
  case (Cons mesh rest)
  from Cons.prems have "mesh_loads (layout g) pScene mesh" by simp
  from load_mesh_succeeds [OF this] obtain g1 model1 where
    lm: "load_mesh pScene mo mesh i (g, model) = Inr (g1, model1)" by (metis surj_pair)
  from load_mesh_Inr [OF lm] have "layout g1 = layout g" by auto
  with Cons.prems have "\<forall>mesh\<in>set rest. mesh_loads (layout g1) pScene mesh" by simp
  from Cons.IH [OF this] show ?case using lm by simp
qed

text \<open>\<open>addModel\<close> returns on every scene whose meshes can be loaded.\<close>
lemma addModel_succeeds:
  assumes "ReadFile filename flags = Inr pScene"
    and "length (mMaterials pScene) \<le> 2147483647"
    and "\<forall>mesh\<in>set (mMeshes pScene). mesh_loads (layout g) pScene mesh"
  shows "\<exists>ret out g'. addModel ReadFile g filename flags = Inr (ret, out, g')"
proof -
  have "\<forall>mesh\<in>set (mMeshes pScene).
      mesh_loads (layout (g\<lparr>aiMaterials := aiMaterials g @ mMaterials pScene\<rparr>)) pScene mesh"
    using assms(3) by simp
  from mesh_loop_succeeds [OF this] obtain g1 model where
    "mesh_loop pScene (of_nat (length (aiMaterials g))) (mMeshes pScene) 0
       (g\<lparr>aiMaterials := aiMaterials g @ mMaterials pScene\<rparr>,
        Model_new (length (mMeshes pScene))) = Inr (g1, model)" by (metis surj_pair)
  then show ?thesis using assms(1,2) by (simp add: addModel_def Let_def)
qed


lemma example_triangles_loaded:
  "addModels example_huge_ReadFile ModelGroup_new [(''triangles.obj'', 0)]
     = Inr example_triangles_group \<and>
   length (indexBuffer example_triangles_group) = 4294967298 \<and>
   unat (indexCount_grp example_triangles_group) = 2 \<and>
   total_indexCount (models example_triangles_group) = 2"
proof -
  define mesh where "mesh = example_mesh\<lparr>mFaces := replicate 1431655766 \<lparr>mIndices = [0, 1, 2]\<rparr>\<rparr>"
  have sc: "example_triangles_scene = \<lparr>mMaterials = [example_material], mMeshes = [mesh]\<rparr>"
    by (simp add: example_triangles_scene_def mesh_def)
  have rf: "example_huge_ReadFile ''triangles.obj'' 0 = Inr example_triangles_scene"
    by (simp add: example_huge_ReadFile_def)
  have ml: "mesh_loads (layout ModelGroup_new) example_triangles_scene mesh"
    by (auto simp: mesh_loads_def sc mesh_def example_mesh_def ModelGroup_new_def
        at_index_opt_def at_index_def)
  have "\<exists>ret out g'. addModel example_huge_ReadFile ModelGroup_new ''triangles.obj'' 0
      = Inr (ret, out, g')"
    using ml
    by (intro addModel_succeeds [of example_huge_ReadFile "''triangles.obj''" 0
          example_triangles_scene ModelGroup_new, OF rf]) (simp_all add: sc)
  then obtain ret out g' where
    am: "addModel example_huge_ReadFile ModelGroup_new ''triangles.obj'' 0 = Inr (ret, out, g')"
    by blast
  then have g: "addModels example_huge_ReadFile ModelGroup_new [(''triangles.obj'', 0)] = Inr g'"
    by simp
  then have eq: "example_triangles_group = g'" by (simp add: example_triangles_group_def)
  have tri: "length (tri_indices mesh) = 4294967298"
    by (simp add: length_tri_indices mesh_def)
  have len: "length (scene_indices example_triangles_scene) = 4294967298"
    using tri by (simp add: scene_indices_def sc)
  from addModel_Inr [of example_huge_ReadFile "''triangles.obj''" 0 example_triangles_scene
      ModelGroup_new, OF rf am] obtain model where
    ib: "indexBuffer g' = indexBuffer ModelGroup_new @ scene_indices example_triangles_scene"
    and ic: "indexCount_grp g' = indexCount_grp ModelGroup_new
        + of_nat (length (scene_indices example_triangles_scene))"
    and ms: "models g' = models ModelGroup_new @ [model]"
    and ps: "parts model = mesh_parts (vertexCount_grp ModelGroup_new)
        (indexCount_grp ModelGroup_new) (of_nat (length (aiMaterials ModelGroup_new)))
        (mMeshes example_triangles_scene)"
    by auto
  have 1: "length (indexBuffer g') = 4294967298"
    by (simp add: ib len ModelGroup_new_def)
  have 2: "unat (indexCount_grp g') = 2"
    by (simp add: ic len ModelGroup_new_def unat_of_nat)
  have 3: "total_indexCount (models g') = 2"
    by (simp add: total_indexCount_def ms ps sc tri ModelGroup_new_def unat_of_nat)
  from g 1 2 3 show ?thesis unfolding eq by simp
qed

lemma example_vertices_loaded:
  "addModels example_huge_ReadFile ModelGroup_new [(''vertices.obj'', 0)]
     = Inr example_vertices_group \<and>
   total_vertexCount (models example_vertices_group) = 4294967296 \<and>
   unat (vertexCount_grp example_vertices_group) = 0 \<and>
   length (vertexBuffer example_vertices_group) = 34359738368"
proof -
  have rf: "example_huge_ReadFile ''vertices.obj'' 0 = Inr example_vertices_scene"
    by (simp add: example_huge_ReadFile_def)
  have ml: "mesh_loads (layout ModelGroup_new) example_vertices_scene example_vertices_mesh"
    by (auto simp: mesh_loads_def example_vertices_scene_def example_vertices_mesh_def
        ModelGroup_new_def at_index_opt_def at_index_def)
  have "\<exists>ret out g'. addModel example_huge_ReadFile ModelGroup_new ''vertices.obj'' 0
      = Inr (ret, out, g')"
    using ml
    by (intro addModel_succeeds [of example_huge_ReadFile "''vertices.obj''" 0
          example_vertices_scene ModelGroup_new, OF rf]) (simp_all add: example_vertices_scene_def)
  then obtain ret out g' where
    am: "addModel example_huge_ReadFile ModelGroup_new ''vertices.obj'' 0 = Inr (ret, out, g')"
    by blast
  then have g: "addModels example_huge_ReadFile ModelGroup_new [(''vertices.obj'', 0)] = Inr g'"
    by simp
  then have eq: "example_vertices_group = g'" by (simp add: example_vertices_group_def)
  have nv: "length (mVertices example_vertices_mesh) = 1073741824"
    by (simp add: example_vertices_mesh_def)
  have len: "length (scene_positions example_vertices_scene) = 4294967296"
    by (simp add: scene_positions_def example_vertices_scene_def nv)
  from addModel_Inr [of example_huge_ReadFile "''vertices.obj''" 0 example_vertices_scene
      ModelGroup_new, OF rf am] obtain blocks model where
    b: "list_all2 (vertex_block (layout ModelGroup_new))
          (scene_positions example_vertices_scene) blocks"
    and vb: "vertexBuffer g' = vertexBuffer ModelGroup_new @ concat blocks"
    and vc: "vertexCount_grp g' = vertexCount_grp ModelGroup_new
        + of_nat (length (scene_positions example_vertices_scene))"
    and ms: "models g' = models ModelGroup_new @ [model]"
    and ps: "parts model = mesh_parts (vertexCount_grp ModelGroup_new)
        (indexCount_grp ModelGroup_new) (of_nat (length (aiMaterials ModelGroup_new)))
        (mMeshes example_vertices_scene)"
    by auto
  have 1: "total_vertexCount (models g') = 4294967296"
    by (simp add: total_vertexCount_def ms ps example_vertices_scene_def nv ModelGroup_new_def
        unat_of_nat)
  have 2: "unat (vertexCount_grp g') = 0"
    by (simp add: vc len ModelGroup_new_def unat_of_nat)
  have 3: "length (vertexBuffer g') = 34359738368"
    using blocks_length [OF b]
    by (simp add: vb len ModelGroup_new_def stride_floats_def)
  from g 1 2 3 show ?thesis unfolding eq by simp
qed

text \<open>
  Claim C3 as stated, after every sequence of successful calls.  One mesh of 1431655766
  triangles fills the index buffer with 4294967298 indices while its part count and the
  index counter wrap to 2; four meshes of \<open>2^30\<close> vertices each have part counts that sum to
  \<open>2^32\<close> while the vertex counter wraps to 0 and the vertex buffer holds \<open>2^32\<close> vertices of
  eight floats.
\<close>
theorem addModels_counters_wrap_counterexample:
  "addModels example_huge_ReadFile ModelGroup_new [(''triangles.obj'', 0)]
     = Inr example_triangles_group \<and>
   length (indexBuffer example_triangles_group) = 4294967298 \<and>
   unat (indexCount_grp example_triangles_group) = 2 \<and>
   total_indexCount (models example_triangles_group) = 2 \<and>
   addModels example_huge_ReadFile ModelGroup_new [(''vertices.obj'', 0)]
     = Inr example_vertices_group \<and>
   total_vertexCount (models example_vertices_group) = 4294967296 \<and>
   unat (vertexCount_grp example_vertices_group) = 0 \<and>
   length (vertexBuffer example_vertices_group) = 34359738368"
  using example_triangles_loaded example_vertices_loaded by simp

subsection \<open>The bounding box\<close>










section \<open>Properties of prepare\<close>

subsection \<open>The registry and the packed materials\<close>

lemma std_find_le: "std_find xs x \<le> length xs"
  by (induction xs) auto

lemma std_find_less_iff: "std_find xs x < length xs \<longleftrightarrow> x \<in> set xs"
  by (induction xs) auto

lemma std_find_neq_length_iff: "std_find xs x \<noteq> length xs \<longleftrightarrow> x \<in> set xs"
  using std_find_le [of xs x] std_find_less_iff [of xs x] by auto

lemma nth_std_find: "x \<in> set xs \<Longrightarrow> xs ! std_find xs x = x"
  by (induction xs) auto

lemma std_find_append:
  "std_find (xs @ ys) x = (if x \<in> set xs then std_find xs x else length xs + std_find ys x)"
  by (induction xs) auto

lemma scan_maps_set:
  "set (scan_maps mats acc) = set acc \<union> (GetTexture ` set mats - {[]})"
  by (induction mats arbitrary: acc) (auto simp: Let_def std_find_neq_length_iff)

lemma scan_maps_distinct:
  "distinct acc \<Longrightarrow> distinct (scan_maps mats acc)"
  by (induction mats arbitrary: acc) (auto simp: Let_def std_find_neq_length_iff)

lemma scan_maps_first_seen:
  "all = pre @ map GetTexture mats \<Longrightarrow> set acc = set pre - {[]} \<Longrightarrow>
   sorted_wrt (\<lambda>p q. std_find all p < std_find all q) acc \<Longrightarrow>
   sorted_wrt (\<lambda>p q. std_find all p < std_find all q) (scan_maps mats acc)"
proof (induction mats arbitrary: pre acc)
  case Nil
  then show ?case by simp
next
  case (Cons mat mats)
  define p where "p = GetTexture mat"
  have all: "all = (pre @ [p]) @ map GetTexture mats" using Cons.prems(1) by (simp add: p_def)
  show ?case
  proof (cases "p = [] \<or> p \<in> set acc")
    case True
    then have "set acc = set (pre @ [p]) - {[]}" using Cons.prems(2) by auto
    from Cons.IH [OF all this Cons.prems(3)] True show ?thesis
      by (auto simp: Let_def std_find_neq_length_iff p_def [symmetric])
  next
    case False
    then have pne: "p \<noteq> []" and pacc: "p \<notin> set acc" by simp_all
    then have ppre: "p \<notin> set pre" using Cons.prems(2) by auto
    have set': "set (acc @ [p]) = set (pre @ [p]) - {[]}" using Cons.prems(2) pne by auto
    have posp: "std_find all p = length pre"
      using ppre by (simp add: Cons.prems(1) std_find_append p_def [symmetric])
    have posa: "std_find all a < length pre" if "a \<in> set acc" for a
    proof -
      from that Cons.prems(2) have "a \<in> set pre" by auto
      then show ?thesis by (simp add: Cons.prems(1) std_find_append std_find_less_iff)
    qed
    have "sorted_wrt (\<lambda>p q. std_find all p < std_find all q) (acc @ [p])"
      using Cons.prems(3) posa posp by (simp add: sorted_wrt_append)
    from Cons.IH [OF all set' this] False show ?thesis
      by (auto simp: Let_def std_find_neq_length_iff p_def [symmetric])
  qed
qed

lemma pack_material_Md:
  "Md (pack_material reg aiMat) =
     (if GetTexture aiMat \<in> set reg then of_nat (std_find reg (GetTexture aiMat)) else 0)"
  by (simp add: pack_material_def Let_def std_find_neq_length_iff Material_new_def)

lemma pack_material_Ns:
  "Ns (pack_material reg aiMat) = Get (SHININESS aiMat) 0"
  by (simp add: pack_material_def Let_def Material_new_def)

lemma pack_material_Nr:
  "Nr (pack_material reg aiMat) =
     (if Get (SHININESS aiMat) 0 = 0 then 0.2 else 10 / Get (SHININESS aiMat) 0)"
  by (simp add: pack_material_def Let_def Material_new_def)

lemma pack_material_Nm: "Nm (pack_material reg aiMat) = 0.9"
  by (simp add: pack_material_def Let_def Material_new_def)

lemma updateMaterialBuffer_fields:
  "updateMaterialBuffer g = Inr g' \<Longrightarrow>
   materials g' = materials g \<and> texArray g' = texArray g \<and> instanceBuff g' = instanceBuff g"
  by (auto simp: updateMaterialBuffer_def split: option.splits if_splits)

lemma buildMaterialBuffer_fields:
  "buildMaterialBuffer dev g = Inr g' \<Longrightarrow>
   materials g' = materials g \<and> texArray g' = texArray g \<and> instanceBuff g' = instanceBuff g"
  by (auto simp: buildMaterialBuffer_def dest!: updateMaterialBuffer_fields split: if_splits)

lemma buildInstanceBuffer_fields:
  "buildInstanceBuffer dev g = Inr g' \<Longrightarrow>
   materials g' = materials g \<and> texArray g' = texArray g"
  by (auto simp: buildInstanceBuffer_def updateInstancesBuffer_def Let_def
      split: option.splits if_splits)

lemma prepare_Inr:
  assumes "prepare dev g = Inr g'"
  shows "materials g' = materials g
            @ map (pack_material (scan_maps (aiMaterials g) [])) (aiMaterials g) \<and>
    texArray g' = (if scan_maps (aiMaterials g) [] = [] then texArray g
                   else Some (scan_maps (aiMaterials g) []))"
proof (cases "scan_maps (aiMaterials g) [] = []")
  case True
  with assms show ?thesis by (auto simp: prepare_def Let_def split: if_splits)
next
  case False
  with assms obtain g3 where
    b1: "buildInstanceBuffer dev
           (g\<lparr>materials := materials g
                  @ map (pack_material (scan_maps (aiMaterials g) [])) (aiMaterials g),
              vertices := Some (take (unat ((of_nat (length (vertexBuffer g)) :: u32) * 4) div 4)
                                  (vertexBuffer g)),
              indices := Some (take (unat ((of_nat (length (indexBuffer g)) :: u32) * 4) div 4)
                                  (indexBuffer g)),
              texArray := Some (scan_maps (aiMaterials g) [])\<rparr>) = Inr g3"
    and b2: "buildMaterialBuffer dev g3 = Inr g'"
    by (auto simp: prepare_def Let_def split: if_splits sum.splits)
  from buildInstanceBuffer_fields [OF b1] buildMaterialBuffer_fields [OF b2] False
  show ?thesis by simp
qed

text \<open>
  Claim C6.  When \<open>prepare\<close> returns, the registry of texture paths it built has no
  duplicates, holds exactly the non-empty diffuse paths of the materials, in the order of
  their first occurrence in the scan of all materials, and is what the texture array is
  built from; every material with a non-empty diffuse path is packed with \<open>Md\<close> the position
  of its path in the registry, so two materials with the same non-empty path, of whatever
  assets, get the same \<open>Md\<close>.
\<close>
theorem prepare_texture_registry:
  assumes "prepare dev g = Inr g'"
  shows "distinct (registry g) \<and>
     set (registry g) = set (diffuse_paths g) - {[]} \<and>
     sorted_wrt (\<lambda>p q. std_find (diffuse_paths g) p < std_find (diffuse_paths g) q) (registry g) \<and>
     texArray g' = (if registry g = [] then texArray g else Some (registry g)) \<and>
     length (materials g') = length (materials g) + length (aiMaterials g) \<and>
     (\<forall>i<length (aiMaterials g). \<forall>j<length (aiMaterials g).
        diffuse_paths g ! i = diffuse_paths g ! j \<and> diffuse_paths g ! i \<noteq> [] \<longrightarrow>
        Md (materials g' ! (length (materials g) + i))
          = Md (materials g' ! (length (materials g) + j))) \<and>
     (\<forall>i<length (aiMaterials g). diffuse_paths g ! i \<noteq> [] \<longrightarrow>
        (\<exists>k<length (registry g). registry g ! k = diffuse_paths g ! i \<and>
           Md (materials g' ! (length (materials g) + i)) = of_nat k))"
proof -
  from prepare_Inr [OF assms] have
    mats: "materials g' = materials g @ map (pack_material (registry g)) (aiMaterials g)"
    and tex: "texArray g' = (if registry g = [] then texArray g else Some (registry g))"
    by (simp_all add: registry_def)
  have md: "Md (materials g' ! (length (materials g) + i))
      = (if diffuse_paths g ! i \<in> set (registry g)
         then of_nat (std_find (registry g) (diffuse_paths g ! i)) else 0)"
    if "i < length (aiMaterials g)" for i
    using that by (simp add: mats pack_material_Md diffuse_paths_def)
  have 1: "distinct (registry g)" by (simp add: registry_def scan_maps_distinct)
  have 2: "set (registry g) = set (diffuse_paths g) - {[]}"
    by (simp add: registry_def diffuse_paths_def scan_maps_set)
  have 3: "sorted_wrt (\<lambda>p q. std_find (diffuse_paths g) p < std_find (diffuse_paths g) q)
      (registry g)"
    unfolding registry_def
    by (rule scan_maps_first_seen [of _ "[]"]) (simp_all add: diffuse_paths_def)
  have 5: "length (materials g') = length (materials g) + length (aiMaterials g)"
    by (simp add: mats)
  have 6: "Md (materials g' ! (length (materials g) + i))
          = Md (materials g' ! (length (materials g) + j))"
    if "i < length (aiMaterials g)" "j < length (aiMaterials g)"
      "diffuse_paths g ! i = diffuse_paths g ! j" for i j
    using that by (simp add: md)
  have 7: "\<exists>k<length (registry g). registry g ! k = diffuse_paths g ! i \<and>
           Md (materials g' ! (length (materials g) + i)) = of_nat k"
    if i: "i < length (aiMaterials g)" and ne: "diffuse_paths g ! i \<noteq> []" for i
  proof -
    have "diffuse_paths g ! i \<in> set (diffuse_paths g)" using i by (simp add: diffuse_paths_def)
    then have mem: "diffuse_paths g ! i \<in> set (registry g)" using ne 2 by simp
    show ?thesis
      using mem md [OF i]
      by (intro exI [of _ "std_find (registry g) (diffuse_paths g ! i)"])
        (simp add: std_find_less_iff nth_std_find)
  qed
  from 1 2 3 tex 5 6 7 show ?thesis by blast
qed

theorem prepare_texture_registry_witness:
  "prepare example_device example_textured_group = Inr example_prepared_group \<and>
   diffuse_paths example_textured_group = [''wood.png'', [], ''stone.png'', ''wood.png''] \<and>
   registry example_textured_group = [''wood.png'', ''stone.png''] \<and>
   texArray example_prepared_group = Some [''wood.png'', ''stone.png''] \<and>
   map Md (materials example_prepared_group) = [0, 0, 1, 0]"
  using prepare_texture_registry [of example_device example_textured_group example_prepared_group]
  by (simp add: prepare_eval)

text \<open>
  Claim C8.  Every material that \<open>prepare\<close> packs has \<open>Ns\<close> the shininess of its
  \<^verbatim>\<open>aiMaterial\<close> (0 when it has none), \<open>Nr = 0.2\<close> when \<open>Ns\<close> is 0 and \<open>Nr = 10 / Ns\<close>
  otherwise, so \<open>Nr = 0.5\<close> for \<open>Ns = 20\<close>, and \<open>Nm = 0.9\<close>.
\<close>
theorem prepare_roughness:
  assumes "prepare dev g = Inr g'" and "i < length (aiMaterials g)"
  shows "Ns (materials g' ! (length (materials g) + i)) = Get (SHININESS (aiMaterials g ! i)) 0 \<and>
     Nr (materials g' ! (length (materials g) + i))
       = (if Ns (materials g' ! (length (materials g) + i)) = 0 then 0.2
          else 10 / Ns (materials g' ! (length (materials g) + i))) \<and>
     (Ns (materials g' ! (length (materials g) + i)) = 20 \<longrightarrow>
        Nr (materials g' ! (length (materials g) + i)) = 0.5) \<and>
     Nm (materials g' ! (length (materials g) + i)) = 0.9"
proof -
  from prepare_Inr [OF assms(1)] have
    "materials g' ! (length (materials g) + i)
       = pack_material (scan_maps (aiMaterials g) []) (aiMaterials g ! i)"
    using assms(2) by simp
  then show ?thesis
    by (simp add: pack_material_Ns pack_material_Nr pack_material_Nm)
qed

theorem prepare_roughness_witness:
  "prepare example_device example_textured_group = Inr example_prepared_group \<and>
   length (aiMaterials example_textured_group) = 4 \<and>
   map Ns (materials example_prepared_group) = [20, 0, 4, 20] \<and>
   map Nr (materials example_prepared_group) = [0.5, 0.2, 2.5, 0.5] \<and>
   map Nm (materials example_prepared_group) = [0.9, 0.9, 0.9, 0.9]"
  using prepare_roughness [of example_device example_textured_group example_prepared_group 0]
    prepare_roughness [of example_device example_textured_group example_prepared_group 1]
  by (simp add: prepare_eval)

subsection \<open>Without textures, and beyond the capacity of the material table\<close>

lemma prepare_empty_registry:
  "prepare dev g = Inr g' \<Longrightarrow> registry g = [] \<Longrightarrow>
   materialsBuff g' = materialsBuff g \<and> instanceBuff g' = instanceBuff g \<and>
   texArray g' = texArray g"
  by (auto simp: prepare_def registry_def Let_def split: if_splits)

text \<open>
  Claim C9.  On a group whose only material has no texture the registry is empty, and
  \<open>prepare\<close> returns right after the vertex and index upload: the material is packed into
  \<open>materials\<close>, but neither the instance buffer nor the material table is built, whereas on
  the textured group both are.
\<close>
theorem prepare_plain_group_builds_no_tables:
  "registry example_plain_group = [] \<and>
   prepare example_device example_plain_group =
     Inr (example_plain_group
           \<lparr>materials := [pack_material [] example_plain_material],
            vertices := Some [], indices := Some []\<rparr>) \<and>
   instanceDatas example_plain_group = [example_instanceData] \<and>
   instanceBuff (projr (prepare example_device example_plain_group)) = None \<and>
   materialsBuff (projr (prepare example_device example_plain_group)) = None \<and>
   instanceBuff example_prepared_group = Some [Some example_instanceData] \<and>
   map_option (take 4) (materialsBuff example_prepared_group)
     = Some (map Some (materials example_prepared_group))"
  by (simp add: prepare_eval)

lemma prepare_beyond_capacity:
  assumes "256 < length (materials g) + length (aiMaterials g)" and "registry g \<noteq> []"
    and "\<forall>n. createBuffer dev n" and "\<forall>paths n. buildFromImages dev paths n"
  shows "prepare dev g = Inl OutOfBounds"
  using assms
  by (simp add: prepare_def registry_def Let_def buildInstanceBuffer_def
      updateInstancesBuffer_def buildMaterialBuffer_def updateMaterialBuffer_def
      sizeof_Material_def sizeof_InstanceData_def material_table_entries_def)

lemma buildMaterialBuffer_within_capacity:
  "length (materials g) \<le> 256 \<Longrightarrow> createBuffer dev (sizeof_Material * material_table_entries) \<Longrightarrow>
   buildMaterialBuffer dev g =
     Inr (g\<lparr>materialsBuff :=
             Some (map Some (materials g) @ replicate (256 - length (materials g)) None)\<rparr>)"
  by (simp add: buildMaterialBuffer_def updateMaterialBuffer_def sizeof_Material_def
      material_table_entries_def)

lemma buildMaterialBuffer_beyond_capacity:
  "256 < length (materials g) \<Longrightarrow> createBuffer dev (sizeof_Material * material_table_entries) \<Longrightarrow>
   buildMaterialBuffer dev g = Inl OutOfBounds"
  by (simp add: buildMaterialBuffer_def updateMaterialBuffer_def sizeof_Material_def
      material_table_entries_def)

text \<open>
  Claim C7.  With 257 packed materials, \<open>buildMaterialBuffer\<close> creates the table of 256
  entries and copies all 257 materials into it: a write past the end of the table, with no
  failure reported before it.  \<open>prepare\<close> on a group with 257 imported materials ends the
  same way, after its other uploads.
\<close>
theorem buildMaterialBuffer_crowded_group:
  "length (materials example_crowded_group) = 257 \<and>
   buildMaterialBuffer example_device example_crowded_group = Inl OutOfBounds \<and>
   length (aiMaterials example_crowded_assets) = 257 \<and>
   prepare example_device example_crowded_assets = Inl OutOfBounds"
proof (intro conjI)
  have dev: "createBuffer example_device n" "buildFromImages example_device paths side"
    for n paths side
    by (simp_all add: example_device_def)
  show len: "length (materials example_crowded_group) = 257"
    by (simp add: example_crowded_group_def)
  show "buildMaterialBuffer example_device example_crowded_group = Inl OutOfBounds"
  proof (rule buildMaterialBuffer_beyond_capacity)
    show "256 < length (materials example_crowded_group)" unfolding len by simp
    show "createBuffer example_device (sizeof_Material * material_table_entries)" by (rule dev)
  qed
  show len': "length (aiMaterials example_crowded_assets) = 257"
    by (simp add: example_crowded_assets_def)
  have "set (aiMaterials example_crowded_assets) = {example_material}"
    by (simp add: example_crowded_assets_def)
  then have "''wood.png'' \<in> set (registry example_crowded_assets)"
    by (simp add: registry_def scan_maps_set example_material_def GetTexture_def Get_def)
  then have ne: "registry example_crowded_assets \<noteq> []"
    by (cases "registry example_crowded_assets") simp_all
  show "prepare example_device example_crowded_assets = Inl OutOfBounds"
  proof (rule prepare_beyond_capacity)
    show "256 < length (materials example_crowded_assets)
        + length (aiMaterials example_crowded_assets)" unfolding len' by simp
    show "registry example_crowded_assets \<noteq> []" by (rule ne)
    show "\<forall>n. createBuffer example_device n" by (simp add: dev)
    show "\<forall>paths n. buildFromImages example_device paths n" by (simp add: dev)
  qed
qed

end
